theory Spec2Isabelle
  imports Complex_Main
begin

section \<open>Python values\<close>

text \<open>
  A Python \<open>str\<close> is a sequence of Unicode code points, so it is modelled as a list of
  natural numbers, one per code point. \<open>cps\<close> reads an ASCII literal as such a list.
\<close>

type_synonym pystr = "nat list"

definition cps :: "string \<Rightarrow> pystr" where
  "cps s = map of_char s"

text \<open>
  A Python \<open>float\<close>: a finite value, or one of the three special values. No arithmetic is
  done on floats by the code, they are only passed on.
\<close>

datatype pyfloat = Fin rat | PosInf | NegInf | NaN

text \<open>
  The values that \<open>json.loads\<close> produces and that the tools return: \<open>None\<close>, \<open>bool\<close>,
  \<open>int\<close>, \<open>float\<close>, \<open>str\<close>, \<open>list\<close>, and \<open>dict\<close> with string keys (an association
  list in insertion order).
\<close>

datatype pyval =
    PNone
  | PBool bool
  | PInt int
  | PFloat pyfloat
  | PStr pystr
  | PList "pyval list"
  | PDict "(pystr \<times> pyval) list"

type_synonym pydict = "(pystr \<times> pyval) list"

text \<open>
  The exceptions (subclasses of \<open>Exception\<close>) that the code under study can meet.
  \<open>OtherError\<close> carries the message of any exception raised by a remote call.
\<close>

datatype exn =
    AttributeError
  | TypeError
  | ValueError
  | KeyError
  | IndexError
  | OverflowError
  | StopIteration
  | UnicodeEncodeError
  | OtherError pystr

text \<open>\<open>bool(v)\<close>: the truth value that \<open>not v\<close> and \<open>v or d\<close> test.\<close>

fun truthy :: "pyval \<Rightarrow> bool" where
  "truthy PNone = False"
| "truthy (PBool b) = b"
| "truthy (PInt i) = (i \<noteq> 0)"
| "truthy (PFloat f) = (f \<noteq> Fin 0)"
| "truthy (PStr s) = (s \<noteq> [])"
| "truthy (PList xs) = (xs \<noteq> [])"
| "truthy (PDict d) = (d \<noteq> [])"

text \<open>\<open>d.get(k)\<close> on a dict, and \<open>k in d\<close>.\<close>

definition dict_get :: "pydict \<Rightarrow> pystr \<Rightarrow> pyval option" where
  "dict_get d k = map_of d k"

definition has_key :: "pydict \<Rightarrow> pystr \<Rightarrow> bool" where
  "has_key d k = (map_of d k \<noteq> None)"

text \<open>\<open>d[k] = v\<close>: an existing key keeps its position, a new key goes last.\<close>

fun dict_set :: "pydict \<Rightarrow> pystr \<Rightarrow> pyval \<Rightarrow> pydict" where
  "dict_set [] k v = [(k, v)]"
| "dict_set ((k', v') # d) k v =
     (if k' = k then (k, v) # d else (k', v') # dict_set d k v)"

section \<open>String methods\<close>

text \<open>
  \<open>str.strip()\<close> removes the code points for which \<open>str.isspace\<close> holds from both ends.
\<close>

definition py_isspace :: "nat \<Rightarrow> bool" where
  "py_isspace c =
     ((9 \<le> c \<and> c \<le> 13) \<or> (28 \<le> c \<and> c \<le> 32) \<or> c = 133 \<or> c = 160 \<or> c = 5760
      \<or> (8192 \<le> c \<and> c \<le> 8202) \<or> c = 8232 \<or> c = 8233 \<or> c = 8239 \<or> c = 8287
      \<or> c = 12288)"

definition strip :: "pystr \<Rightarrow> pystr" where
  "strip s = rev (dropWhile py_isspace (rev (dropWhile py_isspace s)))"

definition is_ascii :: "pystr \<Rightarrow> bool" where
  "is_ascii s = list_all (\<lambda>c. c < 128) s"

definition ascii_lower :: "nat \<Rightarrow> nat" where
  "ascii_lower c = (if 65 \<le> c \<and> c \<le> 90 then c + 32 else c)"

definition ascii_upper :: "nat \<Rightarrow> nat" where
  "ascii_upper c = (if 97 \<le> c \<and> c \<le> 122 then c - 32 else c)"

text \<open>
  \<open>str.lower()\<close> and \<open>str.upper()\<close> follow the Unicode case tables. On a string of ASCII
  code points they change the letters A-Z (a-z) only; on any other string the result is
  taken from the parameter \<open>u\<close>, which stands for the Unicode tables.
\<close>

definition lower :: "(pystr \<Rightarrow> pystr) \<Rightarrow> pystr \<Rightarrow> pystr" where
  "lower u s = (if is_ascii s then map ascii_lower s else u s)"

definition upper :: "(pystr \<Rightarrow> pystr) \<Rightarrow> pystr \<Rightarrow> pystr" where
  "upper u s = (if is_ascii s then map ascii_upper s else u s)"

text \<open>\<open>str(n)\<close> for an integer, as an f-string renders it.\<close>

fun str_of_nat :: "nat \<Rightarrow> pystr" where
  "str_of_nat n = (if n < 10 then [48 + n] else str_of_nat (n div 10) @ [48 + n mod 10])"

declare str_of_nat.simps [simp del]

definition str_of_int :: "int \<Rightarrow> pystr" where
  "str_of_int i = (if i < 0 then 45 # str_of_nat (nat (- i)) else str_of_nat (nat i))"

text \<open>\<open>sep.join(xs)\<close>.\<close>

fun join :: "pystr \<Rightarrow> pystr list \<Rightarrow> pystr" where
  "join sep [] = []"
| "join sep [x] = x"
| "join sep (x # y # xs) = x @ sep @ join sep (y # xs)"

section \<open>urllib.parse.quote_plus\<close>

text \<open>
  \<open>quote\<close> encodes the string as UTF-8 (strict: a surrogate code point raises
  \<open>UnicodeEncodeError\<close>) and writes every byte that is not a letter, a digit, one of
  \<open>_.-~\<close> or listed in \<open>safe\<close> as \<open>%XX\<close>. \<open>quote_plus\<close> keeps spaces through \<open>quote\<close>
  and turns them into \<open>+\<close>.
\<close>

definition is_surrogate :: "nat \<Rightarrow> bool" where
  "is_surrogate c = (55296 \<le> c \<and> c \<le> 57343)"

definition utf8_encode_cp :: "nat \<Rightarrow> exn + nat list" where
  "utf8_encode_cp c =
     (if c < 128 then Inr [c]
      else if c < 2048 then Inr [192 + c div 64, 128 + c mod 64]
      else if is_surrogate c then Inl UnicodeEncodeError
      else if c < 65536 then Inr [224 + c div 4096, 128 + (c div 64) mod 64, 128 + c mod 64]
      else Inr [240 + c div 262144, 128 + (c div 4096) mod 64,
                128 + (c div 64) mod 64, 128 + c mod 64])"

fun utf8_encode :: "pystr \<Rightarrow> exn + nat list" where
  "utf8_encode [] = Inr []"
| "utf8_encode (c # cs) =
     (case utf8_encode_cp c of
        Inl e \<Rightarrow> Inl e
      | Inr bs \<Rightarrow> (case utf8_encode cs of Inl e \<Rightarrow> Inl e | Inr rest \<Rightarrow> Inr (bs @ rest)))"

definition always_safe :: "nat \<Rightarrow> bool" where
  "always_safe b =
     ((65 \<le> b \<and> b \<le> 90) \<or> (97 \<le> b \<and> b \<le> 122) \<or> (48 \<le> b \<and> b \<le> 57)
      \<or> b = 95 \<or> b = 46 \<or> b = 45 \<or> b = 126)"

definition hex_digit :: "nat \<Rightarrow> nat" where
  "hex_digit d = (if d < 10 then 48 + d else 55 + d)"

definition quote_byte :: "nat list \<Rightarrow> nat \<Rightarrow> pystr" where
  "quote_byte safe b =
     (if always_safe b \<or> b \<in> set safe then [b]
      else [37, hex_digit (b div 16), hex_digit (b mod 16)])"

definition quote :: "nat list \<Rightarrow> pystr \<Rightarrow> exn + pystr" where
  "quote safe s =
     (if s = [] then Inr s
      else case utf8_encode s of
             Inl e \<Rightarrow> Inl e
           | Inr bs \<Rightarrow> Inr (concat (map (quote_byte safe) bs)))"

definition quote_plus :: "pystr \<Rightarrow> exn + pystr" where
  "quote_plus s =
     (if 32 \<notin> set s then quote [] s
      else case quote [32] s of
             Inl e \<Rightarrow> Inl e
           | Inr q \<Rightarrow> Inr (map (\<lambda>c. if c = 32 then 43 else c) q))"

section \<open>Operations on Python values\<close>

text \<open>
  Each operation raises what Python raises when the value has the wrong type:
  \<open>v.get(k, default)\<close>, \<open>v[0]\<close>, \<open>v[k]\<close> for a string \<open>k\<close>, \<open>k in v\<close> for a
  string \<open>k\<close>, and \<open>next(iter(v.items()))\<close>.
\<close>

fun py_get :: "pyval \<Rightarrow> pystr \<Rightarrow> pyval \<Rightarrow> exn + pyval" where
  "py_get (PDict d) k dflt = Inr (case map_of d k of None \<Rightarrow> dflt | Some v \<Rightarrow> v)"
| "py_get _ k dflt = Inl AttributeError"

fun subscript0 :: "pyval \<Rightarrow> exn + pyval" where
  "subscript0 (PList xs) = (case xs of [] \<Rightarrow> Inl IndexError | x # _ \<Rightarrow> Inr x)"
| "subscript0 (PStr s) = (case s of [] \<Rightarrow> Inl IndexError | c # _ \<Rightarrow> Inr (PStr [c]))"
| "subscript0 (PDict d) = Inl KeyError"
| "subscript0 _ = Inl TypeError"

fun subscript_str :: "pyval \<Rightarrow> pystr \<Rightarrow> exn + pyval" where
  "subscript_str (PDict d) k = (case map_of d k of None \<Rightarrow> Inl KeyError | Some v \<Rightarrow> Inr v)"
| "subscript_str _ k = Inl TypeError"

fun contains :: "pystr \<Rightarrow> pystr \<Rightarrow> bool" where
  "contains [] sub = (sub = [])"
| "contains (c # cs) sub = (take (length sub) (c # cs) = sub \<or> contains cs sub)"

fun py_in :: "pystr \<Rightarrow> pyval \<Rightarrow> exn + bool" where
  "py_in k (PDict d) = Inr (map_of d k \<noteq> None)"
| "py_in k (PList xs) = Inr (PStr k \<in> set xs)"
| "py_in k (PStr s) = Inr (contains s k)"
| "py_in k _ = Inl TypeError"

fun first_item :: "pyval \<Rightarrow> exn + (pystr \<times> pyval)" where
  "first_item (PDict d) = (case d of [] \<Rightarrow> Inl StopIteration | kv # _ \<Rightarrow> Inr kv)"
| "first_item _ = Inl AttributeError"

section \<open>The world outside the repository\<close>

record request =
  url :: pystr
  params :: "(pystr \<times> pystr) list"

text \<open>
  What the code reads from a \<open>requests\<close> response: \<open>status_code\<close>, \<open>text\<close> (read
  only to report a status other than 200) and the outcome of \<open>json()\<close>, which raises
  when the body is not JSON.
\<close>

record response =
  status_code :: int
  resp_text :: pystr
  resp_json :: "exn + pyval"

text \<open>
  The environment of a run. \<open>getenv\<close> is \<open>os.getenv\<close>; \<open>requests_get\<close> answers an HTTP GET
  or raises; \<open>ticker_history\<close> is \<open>yf.Ticker(symbol).history(period="1d")\<close> reduced to
  what the code reads from it: it raises, or gives \<open>None\<close>, or the Close column.
  The remaining fields are the parts of the Python runtime that are left open:
  the conversion of an \<open>int\<close> (\<open>None\<close>: OverflowError) and of a \<open>str\<close>
  (\<open>None\<close>: ValueError) to \<open>float\<close>, \<open>str(exc)\<close>, and the Unicode case tables.
\<close>

record env =
  getenv :: "pystr \<Rightarrow> pystr option"
  requests_get :: "request \<Rightarrow> exn + response"
  ticker_history :: "pystr \<Rightarrow> exn + pyfloat list option"
  float_of_int :: "int \<Rightarrow> pyfloat option"
  float_of_str :: "pystr \<Rightarrow> pyfloat option"
  str_of_exn :: "exn \<Rightarrow> pystr"
  unicode_lower :: "pystr \<Rightarrow> pystr"
  unicode_upper :: "pystr \<Rightarrow> pystr"

text \<open>\<open>float(v)\<close>.\<close>

fun py_float :: "env \<Rightarrow> pyval \<Rightarrow> exn + pyfloat" where
  "py_float E PNone = Inl TypeError"
| "py_float E (PBool b) = Inr (Fin (if b then 1 else 0))"
| "py_float E (PInt i) = (case float_of_int E i of None \<Rightarrow> Inl OverflowError | Some f \<Rightarrow> Inr f)"
| "py_float E (PFloat f) = Inr f"
| "py_float E (PStr s) = (case float_of_str E s of None \<Rightarrow> Inl ValueError | Some f \<Rightarrow> Inr f)"
| "py_float E (PList xs) = Inl TypeError"
| "py_float E (PDict d) = Inl TypeError"

text \<open>
  The effects a tool has on the world, in the order they happen, and a computation that
  has effects and then returns a value or raises.
\<close>

datatype event = Getenv pystr | HttpGet request | TickerHistory pystr

type_synonym 'a eff = "event list \<times> (exn + 'a)"

definition ret :: "'a \<Rightarrow> 'a eff" where
  "ret v = ([], Inr v)"

definition raise :: "exn \<Rightarrow> 'a eff" where
  "raise e = ([], Inl e)"

definition lift :: "exn + 'a \<Rightarrow> 'a eff" where
  "lift r = ([], r)"

definition bind :: "'a eff \<Rightarrow> ('a \<Rightarrow> 'b eff) \<Rightarrow> 'b eff" where
  "bind m f =
     (case m of
        (t, Inl e) \<Rightarrow> (t, Inl e)
      | (t, Inr v) \<Rightarrow> (case f v of (t', r) \<Rightarrow> (t @ t', r)))"

text \<open>\<open>try: m except Exception as exc: h exc\<close>.\<close>

definition try_except :: "'a eff \<Rightarrow> (exn \<Rightarrow> 'a eff) \<Rightarrow> 'a eff" where
  "try_except m h =
     (case m of
        (t, Inl e) \<Rightarrow> (case h e of (t', r) \<Rightarrow> (t @ t', r))
      | (t, Inr v) \<Rightarrow> (t, Inr v))"

text \<open>The same sequencing for steps without effects.\<close>

definition sbind :: "exn + 'a \<Rightarrow> ('a \<Rightarrow> exn + 'b) \<Rightarrow> exn + 'b" where
  "sbind r f = (case r of Inl e \<Rightarrow> Inl e | Inr v \<Rightarrow> f v)"

definition do_requests_get :: "env \<Rightarrow> request \<Rightarrow> response eff" where
  "do_requests_get E req = ([HttpGet req], requests_get E req)"

definition do_getenv :: "env \<Rightarrow> pystr \<Rightarrow> pystr option eff" where
  "do_getenv E k = ([Getenv k], Inr (getenv E k))"

definition do_ticker_history :: "env \<Rightarrow> pystr \<Rightarrow> pyfloat list option eff" where
  "do_ticker_history E symbol = ([TickerHistory symbol], ticker_history E symbol)"

section \<open>currency\_tool\<close>

text \<open>
  The static table, in the order of the source. Each value of the source is a dict with
  the two keys \<open>code\<close> and \<open>name\<close>; it is kept as the pair of the two strings.
\<close>

definition COUNTRY_CURRENCY_MAP :: "(pystr \<times> (pystr \<times> pystr)) list" where
  "COUNTRY_CURRENCY_MAP =
     [(cps ''india'', (cps ''INR'', cps ''Indian Rupee'')),
      (cps ''united states'', (cps ''USD'', cps ''United States Dollar'')),
      (cps ''united states of america'', (cps ''USD'', cps ''United States Dollar'')),
      (cps ''usa'', (cps ''USD'', cps ''United States Dollar'')),
      (cps ''japan'', (cps ''JPY'', cps ''Japanese Yen'')),
      (cps ''united kingdom'', (cps ''GBP'', cps ''Pound Sterling'')),
      (cps ''uk'', (cps ''GBP'', cps ''Pound Sterling'')),
      (cps ''great britain'', (cps ''GBP'', cps ''Pound Sterling'')),
      (cps ''south korea'', (cps ''KRW'', cps ''South Korean Won'')),
      (cps ''republic of korea'', (cps ''KRW'', cps ''South Korean Won'')),
      (cps ''korea, republic of'', (cps ''KRW'', cps ''South Korean Won'')),
      (cps ''china'', (cps ''CNY'', cps ''Chinese Yuan Renminbi'')),
      (cps (''people'' @ [CHR 0x27] @ ''s republic of china''),
         (cps ''CNY'', cps ''Chinese Yuan Renminbi''))]"

definition normalize_country :: "env \<Rightarrow> pystr \<Rightarrow> pystr" where
  "normalize_country E country = lower (unicode_lower E) (strip country)"

text \<open>The body of the \<open>try\<close> block after \<open>requests.get\<close> has returned.\<close>

definition currency_of_response :: "pystr \<Rightarrow> response \<Rightarrow> exn + pydict" where
  "currency_of_response country resp =
     (if status_code resp \<noteq> 200 then
        Inr [(cps ''country'', PStr (strip country)),
             (cps ''error'', PStr (cps ''Failed to resolve currency via RestCountries (status ''
                @ str_of_int (status_code resp) @ cps '').''))]
      else
        sbind (resp_json resp) (\<lambda>data.
        if \<not> truthy data then
          Inr [(cps ''country'', PStr (strip country)),
               (cps ''error'', PStr (cps ''No country data returned from RestCountries.''))]
        else
          sbind (subscript0 data) (\<lambda>first.
          sbind (py_get first (cps ''currencies'') PNone) (\<lambda>c.
          let currencies = (if truthy c then c else PDict []) in
          if \<not> truthy currencies then
            Inr [(cps ''country'', PStr (strip country)),
                 (cps ''error'',
                  PStr (cps ''No currency information available for this country.''))]
          else
            sbind (first_item currencies) (\<lambda>(code, info).
            sbind (py_get info (cps ''name'') (PStr [])) (\<lambda>nm.
            Inr [(cps ''country'', PStr (strip country)),
                 (cps ''currency_name'', nm),
                 (cps ''currency_code'', PStr code),
                 (cps ''source'', PStr (cps ''restcountries''))]))))))"

definition restcountries_request :: "pystr \<Rightarrow> request" where
  "restcountries_request cntry =
     \<lparr>url = cps ''https://restcountries.com/v3.1/name/'' @ strip cntry,
      params = [(cps ''fullText'', cps ''false''), (cps ''fields'', cps ''currencies,name'')]\<rparr>"

definition get_currency_for_country :: "env \<Rightarrow> pystr \<Rightarrow> pydict eff" where
  "get_currency_for_country E country =
     (let country_norm = normalize_country E country in
      case map_of COUNTRY_CURRENCY_MAP country_norm of
        Some (code, nm) \<Rightarrow>
          ret [(cps ''country'', PStr (strip country)),
               (cps ''currency_name'', PStr nm),
               (cps ''currency_code'', PStr code),
               (cps ''source'', PStr (cps ''local_mapping''))]
      | None \<Rightarrow>
          try_except
            (bind (do_requests_get E (restcountries_request country))
               (\<lambda>resp. lift (currency_of_response country resp)))
            (\<lambda>exc. ret [(cps ''country'', PStr (strip country)),
                        (cps ''error'',
                         PStr (cps ''Exception while resolving currency: '' @ str_of_exn E exc))]))"

text \<open>The exceptions that \<open>except (TypeError, ValueError)\<close> catches.\<close>

definition is_TypeError_or_ValueError :: "exn \<Rightarrow> bool" where
  "is_TypeError_or_ValueError e = (e = TypeError \<or> e = ValueError \<or> e = UnicodeEncodeError)"

text \<open>\<open>float(data[code].get("value", 0.0))\<close>, the expression inside the inner \<open>try\<close>.\<close>

definition entry_value :: "env \<Rightarrow> pyval \<Rightarrow> pystr \<Rightarrow> exn + pyfloat" where
  "entry_value E data code =
     sbind (subscript_str data code) (\<lambda>entry.
     sbind (py_get entry (cps ''value'') (PFloat (Fin 0))) (py_float E))"

text \<open>
  The loop over the target currencies. The membership test is outside the inner
  \<open>try\<close>; the subscript, the \<open>get\<close> and the \<open>float\<close> are inside it.
\<close>

fun collect_rates :: "env \<Rightarrow> pyval \<Rightarrow> pystr list \<Rightarrow> pydict \<Rightarrow> exn + pydict" where
  "collect_rates E data [] rates = Inr rates"
| "collect_rates E data (code # codes) rates =
     sbind (py_in code data) (\<lambda>present.
     if present then
       (case entry_value E data code of
          Inl e \<Rightarrow>
            if is_TypeError_or_ValueError e then collect_rates E data codes rates else Inl e
        | Inr f \<Rightarrow> collect_rates E data codes (dict_set rates code (PFloat f)))
     else collect_rates E data codes rates)"

definition target_currencies :: "pystr list" where
  "target_currencies = [cps ''USD'', cps ''INR'', cps ''GBP'', cps ''EUR'']"

definition rates_of_response :: "env \<Rightarrow> pystr \<Rightarrow> response \<Rightarrow> exn + pydict" where
  "rates_of_response E base resp =
     (if status_code resp \<noteq> 200 then
        Inr [(cps ''base_currency'', PStr base),
             (cps ''error'', PStr (cps ''CurrencyAPI request failed with status ''
                @ str_of_int (status_code resp) @ cps '': '' @ take 200 (resp_text resp)))]
      else
        sbind (resp_json resp) (\<lambda>payload.
        sbind (py_get payload (cps ''data'') (PDict [])) (\<lambda>data.
        sbind (collect_rates E data target_currencies []) (\<lambda>rates.
        if rates = [] then
          Inr [(cps ''base_currency'', PStr base),
               (cps ''error'', PStr (cps ''No valid rates returned by CurrencyAPI.''))]
        else
          Inr [(cps ''base_currency'', PStr base),
               (cps ''rates'', PDict rates),
               (cps ''provider'', PStr (cps ''currencyapi.com''))]))))"

definition currencyapi_request :: "pystr \<Rightarrow> pystr \<Rightarrow> request" where
  "currencyapi_request api_key base =
     \<lparr>url = cps ''https://api.currencyapi.com/v3/latest'',
      params = [(cps ''apikey'', api_key),
                (cps ''base_currency'', base),
                (cps ''currencies'', join (cps '','') target_currencies)]\<rparr>"

definition get_exchange_rates_for_currency :: "env \<Rightarrow> pystr \<Rightarrow> pydict eff" where
  "get_exchange_rates_for_currency E currency_code =
     (let base = upper (unicode_upper E) (strip currency_code) in
      bind (do_getenv E (cps ''CURRENCY_API_KEY'')) (\<lambda>api_key.
      if api_key = None \<or> api_key = Some [] then
        ret [(cps ''base_currency'', PStr base),
             (cps ''error'', PStr (cps
                ''CURRENCY_API_KEY is not set. Sign up at https://currencyapi.com/ and add it to your .env file.''))]
      else
        try_except
          (bind (do_requests_get E (currencyapi_request (the api_key) base))
             (\<lambda>resp. lift (rates_of_response E base resp)))
          (\<lambda>exc. ret [(cps ''base_currency'', PStr base),
                      (cps ''error'',
                       PStr (cps ''Exception while calling CurrencyAPI: '' @ str_of_exn E exc))])))"

section \<open>stock\_tool\<close>

record StockIndex =
  symbol :: pystr
  name :: pystr

record StockExchange =
  name :: pystr
  city :: pystr
  country :: pystr
  headquarters_address :: pystr
  indices :: "StockIndex list"

definition india_exchanges :: "StockExchange list" where
  "india_exchanges =
     [\<lparr>name = cps ''National Stock Exchange of India (NSE)'',
       city = cps ''Mumbai'',
       country = cps ''India'',
       headquarters_address = cps
         ''Exchange Plaza, Bandra Kurla Complex, Bandra East, Mumbai, Maharashtra 400051, India'',
       indices = [\<lparr>symbol = cps ''^NSEI'', name = cps ''Nifty 50''\<rparr>,
                  \<lparr>symbol = cps ''^CNX100'', name = cps ''Nifty 100''\<rparr>]\<rparr>,
      \<lparr>name = cps ''Bombay Stock Exchange (BSE)'',
       city = cps ''Mumbai'',
       country = cps ''India'',
       headquarters_address = cps
         ''Phiroze Jeejeebhoy Towers, Dalal Street, Fort, Mumbai, Maharashtra 400001, India'',
       indices = [\<lparr>symbol = cps ''^BSESN'', name = cps ''BSE Sensex''\<rparr>]\<rparr>]"

definition united_states_exchanges :: "StockExchange list" where
  "united_states_exchanges =
     [\<lparr>name = cps ''New York Stock Exchange (NYSE)'',
       city = cps ''New York'',
       country = cps ''United States'',
       headquarters_address = cps ''11 Wall St, New York, NY 10005, USA'',
       indices = [\<lparr>symbol = cps ''^GSPC'', name = cps ''S&P 500''\<rparr>,
                  \<lparr>symbol = cps ''^DJI'', name = cps ''Dow Jones Industrial Average''\<rparr>]\<rparr>,
      \<lparr>name = cps ''NASDAQ Stock Market'',
       city = cps ''New York'',
       country = cps ''United States'',
       headquarters_address = cps ''151 W 42nd St, New York, NY 10036, USA'',
       indices = [\<lparr>symbol = cps ''^IXIC'', name = cps ''NASDAQ Composite''\<rparr>]\<rparr>]"

definition japan_exchanges :: "StockExchange list" where
  "japan_exchanges =
     [\<lparr>name = cps ''Tokyo Stock Exchange (TSE)'',
       city = cps ''Tokyo'',
       country = cps ''Japan'',
       headquarters_address = cps ''2-1 Nihonbashi Kabutocho, Chuo City, Tokyo 103-8224, Japan'',
       indices = [\<lparr>symbol = cps ''^N225'', name = cps ''Nikkei 225''\<rparr>,
                  \<lparr>symbol = cps ''^TOPX'', name = cps ''TOPIX''\<rparr>]\<rparr>]"

definition united_kingdom_exchanges :: "StockExchange list" where
  "united_kingdom_exchanges =
     [\<lparr>name = cps ''London Stock Exchange (LSE)'',
       city = cps ''London'',
       country = cps ''United Kingdom'',
       headquarters_address = cps ''10 Paternoster Square, London EC4M 7LS, United Kingdom'',
       indices = [\<lparr>symbol = cps ''^FTSE'', name = cps ''FTSE 100''\<rparr>,
                  \<lparr>symbol = cps ''^FTMC'', name = cps ''FTSE 250''\<rparr>]\<rparr>]"

definition south_korea_exchanges :: "StockExchange list" where
  "south_korea_exchanges =
     [\<lparr>name = cps ''Korea Exchange (KRX) - Stock Market Division'',
       city = cps ''Seoul'',
       country = cps ''South Korea'',
       headquarters_address = cps ''76 Yeouinaru-ro, Yeongdeungpo-gu, Seoul, South Korea'',
       indices = [\<lparr>symbol = cps ''^KS11'', name = cps ''KOSPI''\<rparr>,
                  \<lparr>symbol = cps ''^KQ11'', name = cps ''KOSDAQ''\<rparr>]\<rparr>]"

definition china_exchanges :: "StockExchange list" where
  "china_exchanges =
     [\<lparr>name = cps ''Shanghai Stock Exchange (SSE)'',
       city = cps ''Shanghai'',
       country = cps ''China'',
       headquarters_address = cps ''528 Pudong South Road, Pudong, Shanghai, China'',
       indices = [\<lparr>symbol = cps ''000001.SS'', name = cps ''SSE Composite Index''\<rparr>]\<rparr>,
      \<lparr>name = cps ''Shenzhen Stock Exchange (SZSE)'',
       city = cps ''Shenzhen'',
       country = cps ''China'',
       headquarters_address = cps
         ''2012 Shennan Blvd, Futian District, Shenzhen, Guangdong, China'',
       indices = [\<lparr>symbol = cps ''399001.SZ'', name = cps ''SZSE Component Index''\<rparr>]\<rparr>]"

text \<open>The catalog, in the order of the source; the alias keys hold empty lists.\<close>

definition COUNTRY_STOCK_PROFILE :: "(pystr \<times> StockExchange list) list" where
  "COUNTRY_STOCK_PROFILE =
     [(cps ''india'', india_exchanges),
      (cps ''united states'', united_states_exchanges),
      (cps ''usa'', []),
      (cps ''united states of america'', []),
      (cps ''japan'', japan_exchanges),
      (cps ''united kingdom'', united_kingdom_exchanges),
      (cps ''uk'', []),
      (cps ''south korea'', south_korea_exchanges),
      (cps ''china'', china_exchanges)]"

definition resolve_profile_key :: "env \<Rightarrow> pystr \<Rightarrow> pystr" where
  "resolve_profile_key E cntry =
     (let norm = normalize_country E cntry in
      if (case map_of COUNTRY_STOCK_PROFILE norm of None \<Rightarrow> False | Some exs \<Rightarrow> exs \<noteq> [])
      then norm
      else if norm \<in> set [cps ''usa'', cps ''united states of america''] then cps ''united states''
      else if norm \<in> set [cps ''uk'', cps ''great britain'', cps ''england'']
      then cps ''united kingdom''
      else norm)"

text \<open>
  The latest close of an index: \<open>None\<close> when the history is missing or empty, and also
  when anything in the \<open>try\<close> block raises.
\<close>

definition fetch_latest_price :: "env \<Rightarrow> pystr \<Rightarrow> pyval eff" where
  "fetch_latest_price E ticker =
     try_except
       (bind (do_ticker_history E ticker) (\<lambda>hist.
          case hist of
            None \<Rightarrow> ret PNone
          | Some closes \<Rightarrow> if closes = [] then ret PNone else ret (PFloat (last closes))))
       (\<lambda>exc. ret PNone)"

text \<open>The inner loop: one price fetch per index, in order.\<close>

fun indices_with_prices :: "env \<Rightarrow> StockIndex list \<Rightarrow> pyval list eff" where
  "indices_with_prices E [] = ret []"
| "indices_with_prices E (idx # idxs) =
     bind (fetch_latest_price E (symbol idx)) (\<lambda>price.
     bind (indices_with_prices E idxs) (\<lambda>rest.
     ret (PDict [(cps ''symbol'', PStr (symbol idx)),
                 (cps ''name'', PStr (StockIndex.name idx)),
                 (cps ''last_price'', price)] # rest)))"

text \<open>\<open>dataclasses.asdict\<close> on an exchange.\<close>

definition asdict_index :: "StockIndex \<Rightarrow> pyval" where
  "asdict_index idx =
     PDict [(cps ''symbol'', PStr (symbol idx)), (cps ''name'', PStr (StockIndex.name idx))]"

definition asdict :: "StockExchange \<Rightarrow> pydict" where
  "asdict ex =
     [(cps ''name'', PStr (StockExchange.name ex)),
      (cps ''city'', PStr (city ex)),
      (cps ''country'', PStr (country ex)),
      (cps ''headquarters_address'', PStr (headquarters_address ex)),
      (cps ''indices'', PList (map asdict_index (indices ex)))]"

text \<open>The outer loop over the exchanges.\<close>

fun result_exchanges :: "env \<Rightarrow> StockExchange list \<Rightarrow> pyval list eff" where
  "result_exchanges E [] = ret []"
| "result_exchanges E (ex # exs) =
     bind (indices_with_prices E (indices ex)) (\<lambda>priced.
     bind (result_exchanges E exs) (\<lambda>rest.
     ret (PDict (dict_set (asdict ex) (cps ''indices'') (PList priced)) # rest)))"

definition get_country_stock_profile :: "env \<Rightarrow> pystr \<Rightarrow> pydict eff" where
  "get_country_stock_profile E cntry =
     (let country_clean = strip cntry;
          key = resolve_profile_key E cntry;
          exchanges = (case map_of COUNTRY_STOCK_PROFILE key of None \<Rightarrow> [] | Some exs \<Rightarrow> exs)
      in
      if exchanges = [] then
        ret [(cps ''country'', PStr country_clean),
             (cps ''exchanges'', PList []),
             (cps ''error'', PStr (cps ''No stock exchange profile configured for this country.''))]
      else
        bind (result_exchanges E exchanges) (\<lambda>res.
        ret [(cps ''country'', PStr country_clean),
             (cps ''exchanges'', PList res)]))"

section \<open>maps\_tool\<close>

definition get_google_maps_link_for_address :: "pystr \<Rightarrow> exn + pystr" where
  "get_google_maps_link_for_address address =
     (case quote_plus (strip address) of
        Inl e \<Rightarrow> Inl e
      | Inr query \<Rightarrow> Inr (cps ''https://www.google.com/maps/search/?api=1&query='' @ query))"

section \<open>agent\<close>

text \<open>
  Step 4 of the orchestrator: the headquarters address of the first exchange and its
  map link. A call of a string method on a value that is not a string raises
  \<open>AttributeError\<close>.
\<close>

definition main_exchange_link :: "pydict \<Rightarrow> exn + (pyval \<times> pyval)" where
  "main_exchange_link stock_profile =
     (let got = (case map_of stock_profile (cps ''exchanges'') of None \<Rightarrow> PNone | Some v \<Rightarrow> v);
          exchanges = (if truthy got then got else PList [])
      in
      if truthy exchanges then
        sbind (subscript0 exchanges) (\<lambda>main_exchange.
        sbind (py_get main_exchange (cps ''headquarters_address'') PNone) (\<lambda>main_hq_address.
        if truthy main_hq_address then
          (case main_hq_address of
             PStr a \<Rightarrow>
               sbind (get_google_maps_link_for_address a) (\<lambda>link.
               Inr (main_hq_address, PStr link))
           | _ \<Rightarrow> Inl AttributeError)
        else Inr (main_hq_address, PNone)))
      else Inr (PNone, PNone))"

text \<open>
  Step 2 of the orchestrator: the exchange rates, fetched only when the currency
  information has a \<open>currency_code\<close>.
\<close>

definition exchange_rates_step :: "env \<Rightarrow> pydict \<Rightarrow> pydict eff" where
  "exchange_rates_step E currency_info =
     (if has_key currency_info (cps ''currency_code'') then
        (case map_of currency_info (cps ''currency_code'') of
           Some (PStr c) \<Rightarrow> get_exchange_rates_for_currency E c
         | _ \<Rightarrow> raise AttributeError)
      else
        ret [(cps ''error'', PStr (cps
          ''Could not determine currency code for this country; FX rates unavailable.''))])"

definition build_country_financial_profile :: "env \<Rightarrow> pystr \<Rightarrow> pydict eff" where
  "build_country_financial_profile E country0 =
     (let cntry = strip country0 in
      bind (get_currency_for_country E cntry) (\<lambda>currency_info.
      bind (exchange_rates_step E currency_info) (\<lambda>fx_rates.
      bind (get_country_stock_profile E cntry) (\<lambda>stock_profile.
      bind (lift (main_exchange_link stock_profile)) (\<lambda>(main_hq_address, maps_link).
      ret [(cps ''country'', PStr cntry),
           (cps ''currency'', PDict currency_info),
           (cps ''exchange_rates'', PDict fx_rates),
           (cps ''stocks'', PDict stock_profile),
           (cps ''main_exchange_hq_address'', main_hq_address),
           (cps ''google_maps_link'', maps_link)])))))"

section \<open>Notions used in the statements\<close>

text \<open>
  The exchange list that \<open>get_country_stock_profile\<close> works on:
  \<open>COUNTRY_STOCK_PROFILE.get(key, [])\<close> for the resolved key.
\<close>

definition configured :: "env \<Rightarrow> pystr \<Rightarrow> StockExchange list" where
  "configured E c =
     (case map_of COUNTRY_STOCK_PROFILE (resolve_profile_key E c) of
        None \<Rightarrow> []
      | Some exs \<Rightarrow> exs)"

text \<open>A string with no surrogate code point is one that UTF-8 can encode.\<close>

definition has_surrogate :: "pystr \<Rightarrow> bool" where
  "has_surrogate s = list_ex is_surrogate s"

text \<open>
  An entry of a priced index list: the symbol and name of the catalog index, and a
  \<open>last_price\<close> that is a float or \<open>None\<close>. An entry of the exchange list: the four
  static fields of the catalog exchange, and its indices, each priced, in catalog order.
\<close>

definition is_price :: "pyval \<Rightarrow> bool" where
  "is_price p = (case p of PNone \<Rightarrow> True | PFloat f \<Rightarrow> True | _ \<Rightarrow> False)"

definition priced_index :: "StockIndex \<Rightarrow> pyval \<Rightarrow> bool" where
  "priced_index idx v =
     (case v of
        PDict d \<Rightarrow>
          map fst d = [cps ''symbol'', cps ''name'', cps ''last_price'']
          \<and> map_of d (cps ''symbol'') = Some (PStr (symbol idx))
          \<and> map_of d (cps ''name'') = Some (PStr (StockIndex.name idx))
          \<and> (case map_of d (cps ''last_price'') of None \<Rightarrow> False | Some p \<Rightarrow> is_price p)
      | _ \<Rightarrow> False)"

definition priced_exchange :: "StockExchange \<Rightarrow> pyval \<Rightarrow> bool" where
  "priced_exchange ex v =
     (case v of
        PDict d \<Rightarrow>
          map fst d = [cps ''name'', cps ''city'', cps ''country'',
                       cps ''headquarters_address'', cps ''indices'']
          \<and> map_of d (cps ''name'') = Some (PStr (StockExchange.name ex))
          \<and> map_of d (cps ''city'') = Some (PStr (city ex))
          \<and> map_of d (cps ''country'') = Some (PStr (country ex))
          \<and> map_of d (cps ''headquarters_address'') = Some (PStr (headquarters_address ex))
          \<and> (case map_of d (cps ''indices'') of
                Some (PList ps) \<Rightarrow> list_all2 priced_index (indices ex) ps
              | _ \<Rightarrow> False)
      | _ \<Rightarrow> False)"

text \<open>
  A response entry that the rate loop can read without leaving the inner \<open>try\<close> by
  another exception than \<open>TypeError\<close> or \<open>ValueError\<close>: it is an object, and its
  \<open>value\<close>, when an \<open>int\<close>, is in the range of \<open>float\<close>.
\<close>

definition entry_readable :: "env \<Rightarrow> pyval \<Rightarrow> bool" where
  "entry_readable E entry =
     (case entry of
        PDict fs \<Rightarrow>
          (case map_of fs (cps ''value'') of
             Some (PInt i) \<Rightarrow> float_of_int E i \<noteq> None
           | _ \<Rightarrow> True)
      | _ \<Rightarrow> False)"

definition entries_readable :: "env \<Rightarrow> pydict \<Rightarrow> bool" where
  "entries_readable E d =
     list_all (\<lambda>code. case map_of d code of None \<Rightarrow> True | Some entry \<Rightarrow> entry_readable E entry)
       target_currencies"

text \<open>
  The rates as the amended claims describe them: for each of the given codes, in order,
  that is present in the provider's data, the \<open>float\<close> of the entry's \<open>value\<close> field, or
  of \<open>0.0\<close> when the entry has no such field; a code whose value does not coerce is left out.
\<close>

definition coerced_rates :: "env \<Rightarrow> pydict \<Rightarrow> pystr list \<Rightarrow> pydict" where
  "coerced_rates E d codes =
     concat (map (\<lambda>code.
       case map_of d code of
         None \<Rightarrow> []
       | Some entry \<Rightarrow>
           (case sbind (py_get entry (cps ''value'') (PFloat (Fin 0))) (py_float E) of
              Inl e \<Rightarrow> []
            | Inr f \<Rightarrow> [(code, PFloat f)])) codes)"

text \<open>A float greater than zero.\<close>

definition positive_float :: "pyfloat \<Rightarrow> bool" where
  "positive_float f = (case f of Fin r \<Rightarrow> 0 < r | PosInf \<Rightarrow> True | _ \<Rightarrow> False)"

text \<open>
  Healthy rates data for the end-to-end example: every present target entry is readable,
  and the entry of one of USD, GBP, EUR is an object whose \<open>value\<close> is a float.
\<close>

definition has_float_value :: "pydict \<Rightarrow> pystr \<Rightarrow> bool" where
  "has_float_value d code =
     (case map_of d code of
        Some (PDict fs) \<Rightarrow>
          (case map_of fs (cps ''value'') of Some (PFloat f) \<Rightarrow> True | _ \<Rightarrow> False)
      | _ \<Rightarrow> False)"

definition healthy_rates_data :: "env \<Rightarrow> pydict \<Rightarrow> bool" where
  "healthy_rates_data E d =
     (entries_readable E d
      \<and> (has_float_value d (cps ''USD'') \<or> has_float_value d (cps ''GBP'')
           \<or> has_float_value d (cps ''EUR'')))"

section \<open>Example worlds\<close>

text \<open>
  A world in which the rates provider answers every request with status 200 and the
  given \<open>data\<close>, the country provider knows France and answers 404 for any other name,
  and the market-data provider has one close for \<open>^NSEI\<close>, an empty history for
  \<open>^CNX100\<close>, raises for \<open>^BSESN\<close> and has no history for any other symbol. The
  runtime fields are stand-ins: the examples convert no string and no large integer to
  \<open>float\<close>, print no exception but one of a remote call, and change the case of ASCII
  strings only.
\<close>

definition france_response :: response where
  "france_response =
     \<lparr>status_code = 200, resp_text = [],
      resp_json = Inr (PList [PDict
        [(cps ''name'', PDict [(cps ''common'', PStr (cps ''France''))]),
         (cps ''currencies'',
          PDict [(cps ''EUR'', PDict [(cps ''name'', PStr (cps ''Euro''))])])]])\<rparr>"

definition not_found_response :: response where
  "not_found_response =
     \<lparr>status_code = 404, resp_text = cps ''Not Found'', resp_json = Inl ValueError\<rparr>"

definition rates_response :: "pyval \<Rightarrow> response" where
  "rates_response data =
     \<lparr>status_code = 200, resp_text = [], resp_json = Inr (PDict [(cps ''data'', data)])\<rparr>"

definition demo_env :: "pyval \<Rightarrow> env" where
  "demo_env data =
     \<lparr>getenv = (\<lambda>k. if k = cps ''CURRENCY_API_KEY'' then Some (cps ''demo-key'') else None),
      requests_get = (\<lambda>req.
        if url req = cps ''https://api.currencyapi.com/v3/latest'' then Inr (rates_response data)
        else if url req = cps ''https://restcountries.com/v3.1/name/France''
        then Inr france_response
        else Inr not_found_response),
      ticker_history = (\<lambda>s.
        if s = cps ''^NSEI'' then Inr (Some [Fin 24500])
        else if s = cps ''^CNX100'' then Inr (Some [])
        else if s = cps ''^BSESN'' then Inl (OtherError (cps ''timed out''))
        else Inr None),
      float_of_int = (\<lambda>i. Some (Fin (of_int i))),
      float_of_str = (\<lambda>s. None),
      str_of_exn = (\<lambda>e. case e of OtherError m \<Rightarrow> m | _ \<Rightarrow> []),
      unicode_lower = (\<lambda>s. s),
      unicode_upper = (\<lambda>s. s)\<rparr>"

text \<open>A world in which every remote call raises.\<close>

definition offline_env :: env where
  "offline_env =
     (demo_env PNone)
       \<lparr>requests_get := (\<lambda>req. Inl (OtherError (cps ''connection refused''))),
        ticker_history := (\<lambda>s. Inl (OtherError (cps ''connection refused'')))\<rparr>"

text \<open>
  The per-currency entries of the rates data of the examples: a full answer; an answer
  with one good entry, one \<open>null\<close> value and one entry without a value, and no INR; an
  entry without a value; a negative value; a boolean value; and a good entry followed by
  an entry that is a number instead of an object.
\<close>

definition healthy_entries :: pydict where
  "healthy_entries =
     [(cps ''USD'', PDict [(cps ''code'', PStr (cps ''USD'')), (cps ''value'', PFloat (Fin (3 / 250)))]),
      (cps ''INR'', PDict [(cps ''code'', PStr (cps ''INR'')), (cps ''value'', PFloat (Fin 1))]),
      (cps ''GBP'', PDict [(cps ''code'', PStr (cps ''GBP'')), (cps ''value'', PFloat (Fin (9 / 1000)))]),
      (cps ''EUR'', PDict [(cps ''code'', PStr (cps ''EUR'')), (cps ''value'', PFloat (Fin (11 / 1000)))])]"

definition partial_entries :: pydict where
  "partial_entries =
     [(cps ''USD'', PDict [(cps ''code'', PStr (cps ''USD'')), (cps ''value'', PFloat (Fin (3 / 2)))]),
      (cps ''GBP'', PDict [(cps ''code'', PStr (cps ''GBP'')), (cps ''value'', PNone)]),
      (cps ''EUR'', PDict [(cps ''code'', PStr (cps ''EUR''))])]"

definition no_value_entries :: pydict where
  "no_value_entries = [(cps ''USD'', PDict [(cps ''code'', PStr (cps ''USD''))])]"

definition negative_entries :: pydict where
  "negative_entries = [(cps ''USD'', PDict [(cps ''value'', PFloat (Fin (- 5 / 2)))])]"

definition boolean_entries :: pydict where
  "boolean_entries = [(cps ''USD'', PDict [(cps ''value'', PBool True)])]"

definition unreadable_entries :: pydict where
  "unreadable_entries =
     [(cps ''USD'', PDict [(cps ''code'', PStr (cps ''USD'')), (cps ''value'', PFloat (Fin (3 / 2)))]),
      (cps ''INR'', PInt 7)]"

section \<open>Basic facts\<close>

lemma cps_eq_iff [simp]: "cps a = cps b \<longleftrightarrow> a = b"
  by (simp add: cps_def inj_on_def)

lemmas maps_eval =
  get_google_maps_link_for_address_def quote_plus_def quote_def utf8_encode_cp_def
  is_surrogate_def strip_def py_isspace_def cps_def quote_byte_def always_safe_def hex_digit_def

section \<open>The map link\<close>

text \<open>
  Claim C8. The docstring of \<open>get_google_maps_link_for_address\<close> and the specification
  give, for the address "11 Wall St, New York, NY 10005, USA", a link whose query writes
  every space as \<open>%20\<close>. The function calls \<open>quote_plus\<close>, which writes a space as
  \<open>+\<close>: the link it returns for that address has \<open>+\<close> in place of every space and
  differs from the documented one.
\<close>

theorem C8_maps_link_writes_spaces_as_plus:
  "get_google_maps_link_for_address (cps ''11 Wall St, New York, NY 10005, USA'') =
     Inr (cps ''https://www.google.com/maps/search/?api=1&query=11+Wall+St%2C+New+York%2C+NY+10005%2C+USA'')
   \<and> get_google_maps_link_for_address (cps ''11 Wall St, New York, NY 10005, USA'') \<noteq>
     Inr (cps ''https://www.google.com/maps/search/?api=1&query=11%20Wall%20St%2C%20New%20York%2C%20NY%2010005%2C%20USA'')"
  by (simp add: maps_eval)

section \<open>Every tool returns\<close>

lemmas eff_defs = bind_def ret_def lift_def raise_def try_except_def sbind_def
  do_requests_get_def do_getenv_def do_ticker_history_def

lemma strip_subset: "set (strip s) \<subseteq> set s"
proof -
  have "set (dropWhile py_isspace (rev (dropWhile py_isspace s))) \<subseteq> set (rev (dropWhile py_isspace s))"
    by (meson set_dropWhileD subsetI)
  also have "\<dots> \<subseteq> set s"
    using set_dropWhileD by fastforce
  finally show ?thesis by (simp add: strip_def)
qed

lemma utf8_encode_total: "\<not> has_surrogate s \<Longrightarrow> \<exists>bs. utf8_encode s = Inr bs"
  by (induction s) (auto simp: has_surrogate_def utf8_encode_cp_def)

lemma maps_link_total:
  assumes "\<not> has_surrogate s"
  shows "\<exists>u. get_google_maps_link_for_address s = Inr u"
proof -
  have "\<not> has_surrogate (strip s)"
    using assms strip_subset[of s] by (auto simp: has_surrogate_def list_ex_iff)
  then obtain bs where "utf8_encode (strip s) = Inr bs"
    using utf8_encode_total by blast
  then show ?thesis
    by (simp add: get_google_maps_link_for_address_def quote_plus_def quote_def)
qed

lemma currency_total: "\<exists>t d. get_currency_for_country E s = (t, Inr d)"
  by (auto simp: get_currency_for_country_def eff_defs Let_def split: option.splits sum.splits prod.splits)

lemma rates_total: "\<exists>t d. get_exchange_rates_for_currency E s = (t, Inr d)"
  by (auto simp: get_exchange_rates_for_currency_def eff_defs Let_def split: option.splits sum.splits prod.splits)

lemma fetch_price_total: "\<exists>p. fetch_latest_price E s = ([TickerHistory s], Inr p) \<and> is_price p"
  by (auto simp: fetch_latest_price_def eff_defs is_price_def split: option.splits sum.splits prod.splits)


lemma indices_with_prices_total:
  "\<exists>ps. indices_with_prices E idxs = (map (\<lambda>i. TickerHistory (symbol i)) idxs, Inr ps)
        \<and> list_all2 priced_index idxs ps"
proof (induction idxs)
  case Nil
  show ?case by (simp add: ret_def)
next
  case (Cons idx idxs)
  then obtain ps where ps: "indices_with_prices E idxs = (map (\<lambda>i. TickerHistory (symbol i)) idxs, Inr ps)"
    "list_all2 priced_index idxs ps" by blast
  obtain p where p: "fetch_latest_price E (symbol idx) = ([TickerHistory (symbol idx)], Inr p)" "is_price p"
    using fetch_price_total by blast
  have hd: "priced_index idx (PDict [(cps ''symbol'', PStr (symbol idx)),
                 (cps ''name'', PStr (StockIndex.name idx)), (cps ''last_price'', p)])"
    using p(2) by (simp add: priced_index_def)
  show ?case
    using ps p(1) hd by (simp add: bind_def ret_def)
qed

lemma dict_set_indices:
  "dict_set (asdict ex) (cps ''indices'') v =
     [(cps ''name'', PStr (StockExchange.name ex)), (cps ''city'', PStr (city ex)),
      (cps ''country'', PStr (country ex)),
      (cps ''headquarters_address'', PStr (headquarters_address ex)), (cps ''indices'', v)]"
  by (simp add: asdict_def)

lemma result_exchanges_total:
  "\<exists>t res. result_exchanges E exs = (t, Inr res) \<and> list_all2 priced_exchange exs res"
proof (induction exs)
  case Nil
  show ?case by (simp add: ret_def)
next
  case (Cons ex exs)
  then obtain t res where r: "result_exchanges E exs = (t, Inr res)" "list_all2 priced_exchange exs res"
    by blast
  obtain ps where ps: "indices_with_prices E (indices ex) = (map (\<lambda>i. TickerHistory (symbol i)) (indices ex), Inr ps)"
    "list_all2 priced_index (indices ex) ps"
    using indices_with_prices_total by blast
  have hd: "priced_exchange ex (PDict (dict_set (asdict ex) (cps ''indices'') (PList ps)))"
    using ps(2) by (simp add: dict_set_indices priced_exchange_def)
  show ?case
    using r ps(1) hd by (simp add: bind_def ret_def)
qed

lemma stock_profile_unconfigured:
  assumes "configured E c = []"
  shows "get_country_stock_profile E c =
           ([], Inr [(cps ''country'', PStr (strip c)), (cps ''exchanges'', PList []),
                     (cps ''error'', PStr (cps ''No stock exchange profile configured for this country.''))])"
  using assms by (simp add: get_country_stock_profile_def configured_def ret_def)

lemma stock_profile_configured:
  assumes "configured E c \<noteq> []"
  shows "\<exists>t res. get_country_stock_profile E c =
           (t, Inr [(cps ''country'', PStr (strip c)), (cps ''exchanges'', PList res)])
         \<and> result_exchanges E (configured E c) = (t, Inr res)
         \<and> list_all2 priced_exchange (configured E c) res"
proof -
  obtain t res where r: "result_exchanges E (configured E c) = (t, Inr res)"
      "list_all2 priced_exchange (configured E c) res"
    using result_exchanges_total by blast
  show ?thesis
    using assms r by (simp add: get_country_stock_profile_def configured_def bind_def ret_def)
qed

section \<open>The stock profile\<close>

text \<open>
  Claim C3. For every country string and every world, \<open>get_country_stock_profile\<close>
  returns a dictionary that has an \<open>error\<close> field if and only if its \<open>exchanges\<close>
  list is empty. When the resolved key has a non-empty exchange list in the catalog, the
  result has no \<open>error\<close> field and its \<open>exchanges\<close> list holds every configured
  exchange, in order, with every index of it, whatever the price fetches gave (each
  \<open>last_price\<close> is a float or \<open>None\<close>).
\<close>

theorem C3_error_iff_exchanges_empty:
  "\<exists>t d. get_country_stock_profile E c = (t, Inr d)
     \<and> (has_key d (cps ''error'') \<longleftrightarrow> map_of d (cps ''exchanges'') = Some (PList []))
     \<and> (\<forall>exs. map_of COUNTRY_STOCK_PROFILE (resolve_profile_key E c) = Some exs \<and> exs \<noteq> [] \<longrightarrow>
          \<not> has_key d (cps ''error'')
          \<and> (\<exists>res. map_of d (cps ''exchanges'') = Some (PList res)
                 \<and> list_all2 priced_exchange exs res))"
proof (cases "configured E c = []")
  case True
  then show ?thesis
    using stock_profile_unconfigured[OF True]
    by (auto simp: has_key_def configured_def split: option.splits)
next
  case False
  obtain t res where r: "get_country_stock_profile E c =
           (t, Inr [(cps ''country'', PStr (strip c)), (cps ''exchanges'', PList res)])"
      "list_all2 priced_exchange (configured E c) res"
    using stock_profile_configured[OF False] by blast
  have "res \<noteq> []" using r(2) False by auto
  then show ?thesis
    using r False by (auto simp: has_key_def configured_def split: option.splits)
qed


lemmas normalize_eval =
  normalize_country_def lower_def strip_def py_isspace_def cps_def is_ascii_def ascii_lower_def

lemma normalize_usa: "normalize_country E (cps ''usa'') = cps ''usa''"
  by (simp add: normalize_eval)

lemma normalize_usoa:
  "normalize_country E (cps ''united states of america'') = cps ''united states of america''"
  by (simp add: normalize_eval)

lemma normalize_us: "normalize_country E (cps ''united states'') = cps ''united states''"
  by (simp add: normalize_eval)

lemma normalize_uk: "normalize_country E (cps ''uk'') = cps ''uk''"
  by (simp add: normalize_eval)

lemma normalize_united_kingdom:
  "normalize_country E (cps ''united kingdom'') = cps ''united kingdom''"
  by (simp add: normalize_eval)

lemma normalize_India: "normalize_country E (cps ''India'') = cps ''india''"
  by (simp add: normalize_eval)

lemma normalize_England: "normalize_country E (cps '' England '') = cps ''england''"
  by (simp add: normalize_eval)

lemma united_states_nonempty: "united_states_exchanges \<noteq> []"
  by (simp add: united_states_exchanges_def)

lemma united_kingdom_nonempty: "united_kingdom_exchanges \<noteq> []"
  by (simp add: united_kingdom_exchanges_def)

lemma india_nonempty: "india_exchanges \<noteq> []"
  by (simp add: india_exchanges_def)

lemma configured_of_norm:
  "configured E c =
     (let norm = normalize_country E c in
      case map_of COUNTRY_STOCK_PROFILE
             (if (case map_of COUNTRY_STOCK_PROFILE norm of None \<Rightarrow> False | Some exs \<Rightarrow> exs \<noteq> [])
              then norm
              else if norm = cps ''usa'' \<or> norm = cps ''united states of america''
              then cps ''united states''
              else if norm = cps ''uk'' \<or> norm = cps ''great britain'' \<or> norm = cps ''england''
              then cps ''united kingdom''
              else norm) of
        None \<Rightarrow> [] | Some exs \<Rightarrow> exs)"
  by (simp add: configured_def resolve_profile_key_def Let_def)

lemma configured_united_states:
  "configured E (cps ''united states'') = united_states_exchanges"
  "configured E (cps ''usa'') = united_states_exchanges"
  "configured E (cps ''united states of america'') = united_states_exchanges"
  by (simp_all add: configured_of_norm normalize_us normalize_usa normalize_usoa
        COUNTRY_STOCK_PROFILE_def united_states_nonempty)

lemma configured_united_kingdom:
  "configured E (cps ''united kingdom'') = united_kingdom_exchanges"
  "configured E (cps ''uk'') = united_kingdom_exchanges"
  by (simp_all add: configured_of_norm normalize_united_kingdom normalize_uk
        COUNTRY_STOCK_PROFILE_def united_kingdom_nonempty)

lemma configured_england:
  assumes "normalize_country E c = cps ''england'' \<or> normalize_country E c = cps ''great britain''"
  shows "configured E c = united_kingdom_exchanges"
  using assms
  by (auto simp add: configured_of_norm COUNTRY_STOCK_PROFILE_def united_kingdom_nonempty)

lemma configured_India: "configured E (cps ''India'') = india_exchanges"
  by (simp add: configured_of_norm normalize_India COUNTRY_STOCK_PROFILE_def india_nonempty)

lemma strip_literals:
  "strip (cps ''usa'') = cps ''usa''"
  "strip (cps ''united states'') = cps ''united states''"
  "strip (cps ''united states of america'') = cps ''united states of america''"
  "strip (cps ''uk'') = cps ''uk''"
  "strip (cps ''united kingdom'') = cps ''united kingdom''"
  "strip (cps ''India'') = cps ''India''"
  "strip (cps '' England '') = cps ''England''"
  "strip (cps ''France'') = cps ''France''"
  "strip (cps ''Atlantis'') = cps ''Atlantis''"
  "strip (cps ''INR'') = cps ''INR''"
  by (simp_all add: strip_def py_isspace_def cps_def)

text \<open>
  Claim C4. In every world, the inputs "usa" and "united states of america" give the
  same non-empty exchange list (and the same price fetches) as "united states", and
  "uk" gives the same non-empty list as "united kingdom": the list is the catalog's
  list of the canonical country, priced, not the empty list that the catalog stores
  under each of the three alias keys.
\<close>

theorem C4_alias_keys_give_canonical_exchanges:
  "(\<exists>t res. res \<noteq> [] \<and> list_all2 priced_exchange united_states_exchanges res
      \<and> get_country_stock_profile E (cps ''united states'') =
          (t, Inr [(cps ''country'', PStr (cps ''united states'')), (cps ''exchanges'', PList res)])
      \<and> get_country_stock_profile E (cps ''usa'') =
          (t, Inr [(cps ''country'', PStr (cps ''usa'')), (cps ''exchanges'', PList res)])
      \<and> get_country_stock_profile E (cps ''united states of america'') =
          (t, Inr [(cps ''country'', PStr (cps ''united states of america'')),
                   (cps ''exchanges'', PList res)]))
   \<and> (\<exists>t res. res \<noteq> [] \<and> list_all2 priced_exchange united_kingdom_exchanges res
      \<and> get_country_stock_profile E (cps ''united kingdom'') =
          (t, Inr [(cps ''country'', PStr (cps ''united kingdom'')), (cps ''exchanges'', PList res)])
      \<and> get_country_stock_profile E (cps ''uk'') =
          (t, Inr [(cps ''country'', PStr (cps ''uk'')), (cps ''exchanges'', PList res)]))
   \<and> map_of COUNTRY_STOCK_PROFILE (cps ''usa'') = Some []
   \<and> map_of COUNTRY_STOCK_PROFILE (cps ''united states of america'') = Some []
   \<and> map_of COUNTRY_STOCK_PROFILE (cps ''uk'') = Some []"
proof (intro conjI)
  obtain t res where r: "result_exchanges E united_states_exchanges = (t, Inr res)"
      "list_all2 priced_exchange united_states_exchanges res"
    using result_exchanges_total by blast
  have ne: "res \<noteq> []" using r(2) united_states_nonempty by auto
  have "get_country_stock_profile E (cps ''united states'') =
          (t, Inr [(cps ''country'', PStr (cps ''united states'')), (cps ''exchanges'', PList res)])"
    using stock_profile_configured[of E "cps ''united states''"] r(1)
    by (simp add: configured_united_states united_states_nonempty strip_literals)
  moreover have "get_country_stock_profile E (cps ''usa'') =
          (t, Inr [(cps ''country'', PStr (cps ''usa'')), (cps ''exchanges'', PList res)])"
    using stock_profile_configured[of E "cps ''usa''"] r(1)
    by (simp add: configured_united_states united_states_nonempty strip_literals)
  moreover have "get_country_stock_profile E (cps ''united states of america'') =
          (t, Inr [(cps ''country'', PStr (cps ''united states of america'')),
                   (cps ''exchanges'', PList res)])"
    using stock_profile_configured[of E "cps ''united states of america''"] r(1)
    by (simp add: configured_united_states united_states_nonempty strip_literals)
  ultimately show "\<exists>t res. res \<noteq> [] \<and> list_all2 priced_exchange united_states_exchanges res
      \<and> get_country_stock_profile E (cps ''united states'') =
          (t, Inr [(cps ''country'', PStr (cps ''united states'')), (cps ''exchanges'', PList res)])
      \<and> get_country_stock_profile E (cps ''usa'') =
          (t, Inr [(cps ''country'', PStr (cps ''usa'')), (cps ''exchanges'', PList res)])
      \<and> get_country_stock_profile E (cps ''united states of america'') =
          (t, Inr [(cps ''country'', PStr (cps ''united states of america'')),
                   (cps ''exchanges'', PList res)])"
    using ne r(2) by blast
next
  obtain t res where r: "result_exchanges E united_kingdom_exchanges = (t, Inr res)"
      "list_all2 priced_exchange united_kingdom_exchanges res"
    using result_exchanges_total by blast
  have ne: "res \<noteq> []" using r(2) united_kingdom_nonempty by auto
  have "get_country_stock_profile E (cps ''united kingdom'') =
          (t, Inr [(cps ''country'', PStr (cps ''united kingdom'')), (cps ''exchanges'', PList res)])"
    using stock_profile_configured[of E "cps ''united kingdom''"] r(1)
    by (simp add: configured_united_kingdom united_kingdom_nonempty strip_literals)
  moreover have "get_country_stock_profile E (cps ''uk'') =
          (t, Inr [(cps ''country'', PStr (cps ''uk'')), (cps ''exchanges'', PList res)])"
    using stock_profile_configured[of E "cps ''uk''"] r(1)
    by (simp add: configured_united_kingdom united_kingdom_nonempty strip_literals)
  ultimately show "\<exists>t res. res \<noteq> [] \<and> list_all2 priced_exchange united_kingdom_exchanges res
      \<and> get_country_stock_profile E (cps ''united kingdom'') =
          (t, Inr [(cps ''country'', PStr (cps ''united kingdom'')), (cps ''exchanges'', PList res)])
      \<and> get_country_stock_profile E (cps ''uk'') =
          (t, Inr [(cps ''country'', PStr (cps ''uk'')), (cps ''exchanges'', PList res)])"
    using ne r(2) by blast
next
  show "map_of COUNTRY_STOCK_PROFILE (cps ''usa'') = Some []"
    by (simp add: COUNTRY_STOCK_PROFILE_def)
next
  show "map_of COUNTRY_STOCK_PROFILE (cps ''united states of america'') = Some []"
    by (simp add: COUNTRY_STOCK_PROFILE_def)
next
  show "map_of COUNTRY_STOCK_PROFILE (cps ''uk'') = Some []"
    by (simp add: COUNTRY_STOCK_PROFILE_def)
qed

text \<open>
  Claim C10. Every input that trims and lower-cases to "england" or "great britain"
  gives the same non-empty exchange list as "united kingdom", although the catalog has
  no entry under either of the two names.
\<close>

theorem C10_england_and_great_britain_resolve_to_united_kingdom:
  assumes "normalize_country E c = cps ''england'' \<or> normalize_country E c = cps ''great britain''"
  shows "\<exists>t res. res \<noteq> [] \<and> list_all2 priced_exchange united_kingdom_exchanges res
      \<and> get_country_stock_profile E c =
          (t, Inr [(cps ''country'', PStr (strip c)), (cps ''exchanges'', PList res)])
      \<and> get_country_stock_profile E (cps ''united kingdom'') =
          (t, Inr [(cps ''country'', PStr (cps ''united kingdom'')), (cps ''exchanges'', PList res)])
      \<and> map_of COUNTRY_STOCK_PROFILE (cps ''england'') = None
      \<and> map_of COUNTRY_STOCK_PROFILE (cps ''great britain'') = None"
proof -
  obtain t res where r: "result_exchanges E united_kingdom_exchanges = (t, Inr res)"
      "list_all2 priced_exchange united_kingdom_exchanges res"
    using result_exchanges_total by blast
  have ne: "res \<noteq> []" using r(2) united_kingdom_nonempty by auto
  have a: "get_country_stock_profile E (cps ''united kingdom'') =
          (t, Inr [(cps ''country'', PStr (cps ''united kingdom'')), (cps ''exchanges'', PList res)])"
    using stock_profile_configured[of E "cps ''united kingdom''"] r(1)
    by (simp add: configured_united_kingdom united_kingdom_nonempty strip_literals)
  have b: "get_country_stock_profile E c =
          (t, Inr [(cps ''country'', PStr (strip c)), (cps ''exchanges'', PList res)])"
    using stock_profile_configured[of E c] r(1) configured_england[OF assms]
    by (simp add: united_kingdom_nonempty)
  have c: "map_of COUNTRY_STOCK_PROFILE (cps ''england'') = None"
      "map_of COUNTRY_STOCK_PROFILE (cps ''great britain'') = None"
    by (simp_all add: COUNTRY_STOCK_PROFILE_def)
  show ?thesis using ne r(2) a b c by blast
qed

text \<open>The input " England " is such an input.\<close>

theorem C10_witness:
  "normalize_country (demo_env PNone) (cps '' England '') = cps ''england''
   \<and> (\<exists>t res. res \<noteq> [] \<and> list_all2 priced_exchange united_kingdom_exchanges res
      \<and> get_country_stock_profile (demo_env PNone) (cps '' England '') =
          (t, Inr [(cps ''country'', PStr (cps ''England'')), (cps ''exchanges'', PList res)])
      \<and> get_country_stock_profile (demo_env PNone) (cps ''united kingdom'') =
          (t, Inr [(cps ''country'', PStr (cps ''united kingdom'')), (cps ''exchanges'', PList res)]))"
proof -
  have n: "normalize_country (demo_env PNone) (cps '' England '') = cps ''england''"
    by (rule normalize_England)
  obtain t res where "res \<noteq> []" "list_all2 priced_exchange united_kingdom_exchanges res"
      "get_country_stock_profile (demo_env PNone) (cps '' England '') =
          (t, Inr [(cps ''country'', PStr (cps ''England'')), (cps ''exchanges'', PList res)])"
      "get_country_stock_profile (demo_env PNone) (cps ''united kingdom'') =
          (t, Inr [(cps ''country'', PStr (cps ''united kingdom'')), (cps ''exchanges'', PList res)])"
    using C10_england_and_great_britain_resolve_to_united_kingdom
            [of "demo_env PNone" "cps '' England ''"] n
    by (auto simp: strip_literals)
  then show ?thesis using n by blast
qed

text \<open>India is configured: its two exchanges are in the result, with no error.\<close>

theorem C3_witness:
  "map_of COUNTRY_STOCK_PROFILE (resolve_profile_key (demo_env PNone) (cps ''India'')) = Some india_exchanges
   \<and> india_exchanges \<noteq> []
   \<and> (\<exists>t d. get_country_stock_profile (demo_env PNone) (cps ''India'') = (t, Inr d)
        \<and> \<not> has_key d (cps ''error'')
        \<and> (\<exists>res. map_of d (cps ''exchanges'') = Some (PList res)
               \<and> list_all2 priced_exchange india_exchanges res))"
proof -
  have k: "map_of COUNTRY_STOCK_PROFILE (resolve_profile_key (demo_env PNone) (cps ''India''))
             = Some india_exchanges"
    by (simp add: resolve_profile_key_def normalize_India COUNTRY_STOCK_PROFILE_def india_nonempty)
  show ?thesis
    using C3_error_iff_exchanges_empty[of "demo_env PNone" "cps ''India''"] k india_nonempty
    by auto
qed

section \<open>The currency lookup\<close>

lemma has_key_simps [simp]:
  "has_key [] k = False"
  "has_key ((k', v) # d) k = (k' = k \<or> has_key d k)"
  by (auto simp: has_key_def)

lemma currency_local:
  assumes "map_of COUNTRY_CURRENCY_MAP (normalize_country E c) = Some (code, nm)"
  shows "get_currency_for_country E c =
           ([], Inr [(cps ''country'', PStr (strip c)), (cps ''currency_name'', PStr nm),
                     (cps ''currency_code'', PStr code), (cps ''source'', PStr (cps ''local_mapping''))])"
  using assms by (simp add: get_currency_for_country_def ret_def)

lemma currency_of_response_shape:
  assumes "currency_of_response c resp = Inr d"
  shows "(\<exists>msg. d = [(cps ''country'', PStr (strip c)), (cps ''error'', PStr msg)])
       \<or> (status_code resp = 200 \<and>
          (\<exists>nm code. d = [(cps ''country'', PStr (strip c)), (cps ''currency_name'', nm),
                     (cps ''currency_code'', PStr code), (cps ''source'', PStr (cps ''restcountries''))]))"
  using assms
  by (auto simp: currency_of_response_def sbind_def Let_def split: if_splits sum.splits prod.splits)

lemma currency_remote:
  assumes "map_of COUNTRY_CURRENCY_MAP (normalize_country E c) = None"
  shows "\<exists>d. get_currency_for_country E c = ([HttpGet (restcountries_request c)], Inr d)
       \<and> ((\<exists>msg. d = [(cps ''country'', PStr (strip c)), (cps ''error'', PStr msg)])
          \<or> ((\<exists>resp. requests_get E (restcountries_request c) = Inr resp \<and> status_code resp = 200)
              \<and> (\<exists>nm code. d = [(cps ''country'', PStr (strip c)), (cps ''currency_name'', nm),
                     (cps ''currency_code'', PStr code), (cps ''source'', PStr (cps ''restcountries''))])))"
proof (cases "requests_get E (restcountries_request c)")
  case (Inl e)
  then show ?thesis using assms
    by (simp add: get_currency_for_country_def eff_defs)
next
  case (Inr resp)
  show ?thesis
  proof (cases "currency_of_response c resp")
    case (Inl e)
    then show ?thesis using assms Inr
      by (simp add: get_currency_for_country_def eff_defs)
  next
    case r: (Inr d)
    have "get_currency_for_country E c = ([HttpGet (restcountries_request c)], Inr d)"
      using assms Inr r by (simp add: get_currency_for_country_def eff_defs)
    then show ?thesis
      using currency_of_response_shape[OF r] Inr by auto
  qed
qed

subsection \<open>The source of a currency\<close>

text \<open>
  Claim C7, amended. A result of \<open>get_currency_for_country\<close> has a \<open>source\<close> field
  exactly when it has a \<open>currency_code\<close>, and then the source is one of two values:
  \<open>local_mapping\<close> when the normalised country is in the static table (and no remote
  call was made), and \<open>restcountries\<close> when the currency came from the remote lookup
  (one call, answered with status 200).
\<close>

theorem C7_source_is_local_mapping_or_restcountries:
  assumes "get_currency_for_country E c = (t, Inr d)"
  shows "(has_key d (cps ''source'') \<longleftrightarrow> has_key d (cps ''currency_code''))
       \<and> (has_key d (cps ''currency_code'') \<longrightarrow>
            (if map_of COUNTRY_CURRENCY_MAP (normalize_country E c) \<noteq> None
             then t = [] \<and> map_of d (cps ''source'') = Some (PStr (cps ''local_mapping''))
             else t = [HttpGet (restcountries_request c)]
                  \<and> (\<exists>resp. requests_get E (restcountries_request c) = Inr resp
                           \<and> status_code resp = 200)
                  \<and> map_of d (cps ''source'') = Some (PStr (cps ''restcountries''))))"
proof (cases "map_of COUNTRY_CURRENCY_MAP (normalize_country E c)")
  case None
  then show ?thesis
    using currency_remote[OF None] assms by auto
next
  case (Some a)
  then show ?thesis
    using currency_local[of E c "fst a" "snd a"] assms by auto
qed


lemma cps_append: "cps a @ cps b = cps (a @ b)"
  by (simp add: cps_def)

lemma normalize_France: "normalize_country E (cps ''France'') = cps ''france''"
  by (simp add: normalize_eval)

lemma normalize_Atlantis: "normalize_country E (cps ''Atlantis'') = cps ''atlantis''"
  by (simp add: normalize_eval)

lemma currency_map_India: "map_of COUNTRY_CURRENCY_MAP (cps ''india'') = Some (cps ''INR'', cps ''Indian Rupee'')"
  by (simp add: COUNTRY_CURRENCY_MAP_def)

lemma str_of_int_404: "str_of_int 404 = cps ''404''"
  by (simp add: str_of_int_def str_of_nat.simps[of 404] str_of_nat.simps[of 40] str_of_nat.simps[of 4] cps_def)

lemma currency_map_france: "map_of COUNTRY_CURRENCY_MAP (cps ''france'') = None"
  by (simp add: COUNTRY_CURRENCY_MAP_def cps_append)

lemma currency_map_atlantis: "map_of COUNTRY_CURRENCY_MAP (cps ''atlantis'') = None"
  by (simp add: COUNTRY_CURRENCY_MAP_def cps_append)

lemmas demo_eval = demo_env_def france_response_def not_found_response_def rates_response_def
  restcountries_request_def currencyapi_request_def

lemma currency_India:
  "get_currency_for_country E (cps ''India'') =
     ([], Inr [(cps ''country'', PStr (cps ''India'')), (cps ''currency_name'', PStr (cps ''Indian Rupee'')),
               (cps ''currency_code'', PStr (cps ''INR'')), (cps ''source'', PStr (cps ''local_mapping''))])"
  using currency_local[of E "cps ''India''"] 
  by (simp add: normalize_India currency_map_India strip_literals)

lemma currency_France:
  "get_currency_for_country (demo_env data) (cps ''France'') =
     ([HttpGet (restcountries_request (cps ''France''))],
      Inr [(cps ''country'', PStr (cps ''France'')), (cps ''currency_name'', PStr (cps ''Euro'')),
           (cps ''currency_code'', PStr (cps ''EUR'')), (cps ''source'', PStr (cps ''restcountries''))])"
  by (simp add: get_currency_for_country_def normalize_France currency_map_france eff_defs
        demo_eval strip_literals cps_append currency_of_response_def)

lemma currency_Atlantis:
  "get_currency_for_country (demo_env data) (cps ''Atlantis'') =
     ([HttpGet (restcountries_request (cps ''Atlantis''))],
      Inr [(cps ''country'', PStr (cps ''Atlantis'')),
           (cps ''error'', PStr (cps ''Failed to resolve currency via RestCountries (status 404).''))])"
  by (simp add: get_currency_for_country_def normalize_Atlantis currency_map_atlantis eff_defs
        demo_eval strip_literals cps_append currency_of_response_def str_of_int_404)

text \<open>
  Claim C7 as stated names the second value \<open>remote_lookup\<close>. For France, which is
  not in the static table, the remote lookup succeeds and the source is
  \<open>restcountries\<close>, which is neither \<open>remote_lookup\<close> nor \<open>local_mapping\<close>.
\<close>

theorem C7_remote_source_counterexample:
  "get_currency_for_country (demo_env PNone) (cps ''France'') =
     ([HttpGet (restcountries_request (cps ''France''))],
      Inr [(cps ''country'', PStr (cps ''France'')), (cps ''currency_name'', PStr (cps ''Euro'')),
           (cps ''currency_code'', PStr (cps ''EUR'')), (cps ''source'', PStr (cps ''restcountries''))])
   \<and> PStr (cps ''restcountries'') \<noteq> PStr (cps ''remote_lookup'')
   \<and> PStr (cps ''restcountries'') \<noteq> PStr (cps ''local_mapping'')"
  by (simp add: currency_France)


text \<open>France takes the remote branch of C7 and India the local one.\<close>

theorem C7_witness:
  "get_currency_for_country (demo_env PNone) (cps ''France'') =
     ([HttpGet (restcountries_request (cps ''France''))],
      Inr [(cps ''country'', PStr (cps ''France'')), (cps ''currency_name'', PStr (cps ''Euro'')),
           (cps ''currency_code'', PStr (cps ''EUR'')), (cps ''source'', PStr (cps ''restcountries''))])
   \<and> map_of COUNTRY_CURRENCY_MAP (normalize_country (demo_env PNone) (cps ''France'')) = None
   \<and> (\<exists>resp. requests_get (demo_env PNone) (restcountries_request (cps ''France'')) = Inr resp
             \<and> status_code resp = 200)
   \<and> get_currency_for_country (demo_env PNone) (cps ''India'') =
     ([], Inr [(cps ''country'', PStr (cps ''India'')), (cps ''currency_name'', PStr (cps ''Indian Rupee'')),
               (cps ''currency_code'', PStr (cps ''INR'')), (cps ''source'', PStr (cps ''local_mapping''))])
   \<and> map_of COUNTRY_CURRENCY_MAP (normalize_country (demo_env PNone) (cps ''India'')) \<noteq> None"
  using C7_source_is_local_mapping_or_restcountries[OF currency_France[of PNone]]
        C7_source_is_local_mapping_or_restcountries[OF currency_India[of "demo_env PNone"]]
  by (simp add: normalize_France currency_map_france normalize_India currency_map_India
        currency_France currency_India)

section \<open>The exchange rates\<close>

lemma dict_set_fresh: "k \<notin> fst ` set d \<Longrightarrow> dict_set d k v = d @ [(k, v)]"
  by (induction d) auto

lemma set_dict_set: "set (dict_set d k v) \<subseteq> insert (k, v) (set d)"
  by (induction d) (auto split: if_splits)

lemma readable_raises:
  assumes "entry_readable E entry"
      and "sbind (py_get entry (cps ''value'') (PFloat (Fin 0))) (py_float E) = Inl e"
  shows "is_TypeError_or_ValueError e"
proof (cases entry)
  case (PDict fs)
  show ?thesis
  proof (cases "map_of fs (cps ''value'')")
    case None
    then show ?thesis using assms PDict by (simp add: sbind_def)
  next
    case (Some v)
    then show ?thesis using assms PDict
      by (cases v) (auto simp: sbind_def entry_readable_def is_TypeError_or_ValueError_def
            split: option.splits)
  qed
qed (use assms in \<open>simp_all add: entry_readable_def\<close>)

lemma entry_value_dict:
  "map_of d code = Some entry \<Longrightarrow>
     entry_value E (PDict d) code = sbind (py_get entry (cps ''value'') (PFloat (Fin 0))) (py_float E)"
  by (simp add: entry_value_def sbind_def)

lemma coerced_rates_Cons:
  "coerced_rates E d (code # codes) =
     (case map_of d code of
        None \<Rightarrow> []
      | Some entry \<Rightarrow>
          (case sbind (py_get entry (cps ''value'') (PFloat (Fin 0))) (py_float E) of
             Inl e \<Rightarrow> []
           | Inr f \<Rightarrow> [(code, PFloat f)])) @ coerced_rates E d codes"
  by (simp add: coerced_rates_def)

lemma coerced_rates_Nil: "coerced_rates E d [] = []"
  by (simp add: coerced_rates_def)

lemma collect_rates_readable:
  assumes "list_all (\<lambda>code. case map_of d code of None \<Rightarrow> True | Some entry \<Rightarrow> entry_readable E entry) codes"
      and "distinct codes" and "set codes \<inter> fst ` set acc = {}"
  shows "collect_rates E (PDict d) codes acc = Inr (acc @ coerced_rates E d codes)"
  using assms
proof (induction codes arbitrary: acc)
  case Nil
  show ?case by (simp add: coerced_rates_Nil)
next
  case (Cons code codes)
  have rest: "list_all (\<lambda>code. case map_of d code of None \<Rightarrow> True | Some entry \<Rightarrow> entry_readable E entry) codes"
    "distinct codes" "code \<notin> set codes" "code \<notin> fst ` set acc" "set codes \<inter> fst ` set acc = {}"
    using Cons.prems by auto
  show ?case
  proof (cases "map_of d code")
    case None
    then show ?thesis
      using Cons.IH[OF rest(1,2,5)] by (simp add: sbind_def coerced_rates_Cons)
  next
    case (Some entry)
    have readable: "entry_readable E entry" using Cons.prems(1) Some by simp
    show ?thesis
    proof (cases "sbind (py_get entry (cps ''value'') (PFloat (Fin 0))) (py_float E)")
      case (Inl e)
      then show ?thesis
        using Some Cons.IH[OF rest(1,2,5)] readable_raises[OF readable Inl]
        by (simp add: sbind_def coerced_rates_Cons entry_value_dict)
    next
      case (Inr f)
      have fresh: "set codes \<inter> fst ` set (acc @ [(code, PFloat f)]) = {}"
        using rest(3,5) by auto
      show ?thesis
        using Some Inr Cons.IH[OF rest(1,2) fresh] dict_set_fresh[OF rest(4)]
        by (simp add: sbind_def coerced_rates_Cons entry_value_dict)
    qed
  qed
qed

lemma collect_rates_sound:
  assumes "collect_rates E data codes acc = Inr r" and "(c, x) \<in> set r"
  shows "(c, x) \<in> set acc
       \<or> (c \<in> set codes \<and> py_in c data = Inr True
           \<and> (\<exists>f. x = PFloat f \<and> entry_value E data c = Inr f))"
  using assms
proof (induction codes arbitrary: acc)
  case Nil
  then show ?case by simp
next
  case (Cons code codes)
  show ?case
  proof (cases "py_in code data")
    case (Inl e)
    then show ?thesis using Cons.prems by (simp add: sbind_def)
  next
    case (Inr present)
    show ?thesis
    proof (cases present)
      case False
      then show ?thesis using Cons.prems Inr Cons.IH[of acc] by (auto simp: sbind_def)
    next
      case True
      show ?thesis
      proof (cases "entry_value E data code")
        case (Inl e)
        then show ?thesis
          using Cons.prems Inr True Cons.IH[of acc]
          by (auto simp: sbind_def split: if_splits)
      next
        case f: (Inr f)
        have "collect_rates E data codes (dict_set acc code (PFloat f)) = Inr r"
          using Cons.prems(1) Inr True f by (simp add: sbind_def)
        from Cons.IH[OF this Cons.prems(2)] show ?thesis
          using set_dict_set[of acc code "PFloat f"] Inr True f by auto
      qed
    qed
  qed
qed

lemma distinct_targets: "distinct target_currencies"
  by (simp add: target_currencies_def)

lemma unreadable_raises:
  assumes "\<not> entry_readable E entry"
  shows "\<exists>e. sbind (py_get entry (cps ''value'') (PFloat (Fin 0))) (py_float E) = Inl e
            \<and> \<not> is_TypeError_or_ValueError e"
proof (cases entry)
  case (PDict fs)
  then obtain i where "map_of fs (cps ''value'') = Some (PInt i)" "float_of_int E i = None"
    using assms by (auto simp: entry_readable_def split: option.splits pyval.splits)
  then show ?thesis
    using PDict by (simp add: sbind_def is_TypeError_or_ValueError_def)
qed (simp_all add: sbind_def is_TypeError_or_ValueError_def)

lemma collect_rates_unreadable:
  assumes "\<not> list_all (\<lambda>code. case map_of d code of None \<Rightarrow> True | Some entry \<Rightarrow> entry_readable E entry) codes"
  shows "\<exists>e. collect_rates E (PDict d) codes acc = Inl e"
  using assms
proof (induction codes arbitrary: acc)
  case Nil
  then show ?case by simp
next
  case (Cons code codes)
  show ?case
  proof (cases "map_of d code")
    case None
    then show ?thesis using Cons by (simp add: sbind_def)
  next
    case (Some entry)
    show ?thesis
    proof (cases "entry_readable E entry")
      case False
      then show ?thesis
        using Some unreadable_raises[OF False]
        by (auto simp: sbind_def entry_value_dict)
    next
      case True
      then have rest: "\<not> list_all (\<lambda>code. case map_of d code of None \<Rightarrow> True | Some entry \<Rightarrow> entry_readable E entry) codes"
        using Cons.prems Some by simp
      show ?thesis
      proof (cases "sbind (py_get entry (cps ''value'') (PFloat (Fin 0))) (py_float E)")
        case (Inl e)
        then show ?thesis
          using Some Cons.IH[OF rest, of acc]
          by (auto simp: sbind_def entry_value_dict)
      next
        case (Inr f)
        then show ?thesis
          using Some Cons.IH[OF rest, of "dict_set acc code (PFloat f)"]
          by (auto simp: sbind_def entry_value_dict)
      qed
    qed
  qed
qed

lemma rates_call:
  assumes "getenv E (cps ''CURRENCY_API_KEY'') = Some k" and "k \<noteq> []"
      and "requests_get E (currencyapi_request k (upper (unicode_upper E) (strip code))) = Inr resp"
  shows "get_exchange_rates_for_currency E code =
           ([Getenv (cps ''CURRENCY_API_KEY''),
             HttpGet (currencyapi_request k (upper (unicode_upper E) (strip code)))],
            Inr (case rates_of_response E (upper (unicode_upper E) (strip code)) resp of
                   Inr r \<Rightarrow> r
                 | Inl e \<Rightarrow>
                     [(cps ''base_currency'', PStr (upper (unicode_upper E) (strip code))),
                      (cps ''error'', PStr (cps ''Exception while calling CurrencyAPI: ''
                          @ str_of_exn E e))]))"
  using assms
  by (simp add: get_exchange_rates_for_currency_def eff_defs Let_def split: sum.splits)

text \<open>
  Claim C5, amended. Let the rates provider answer with status 200 and a JSON object
  whose \<open>data\<close> (or \<open>{}\<close> when it has none) is an object. If every present target
  entry is an object whose \<open>value\<close>, when an integer, fits a float, then \<open>rates\<close> holds
  exactly the target codes, in the order USD, INR, GBP, EUR, that are present and whose
  \<open>value\<close> field (\<open>0.0\<close> when the entry has no such field) coerces under \<open>float\<close>;
  entries whose coercion raises \<open>TypeError\<close> or \<open>ValueError\<close> are skipped; the result
  has \<open>rates\<close> and no \<open>error\<close> when at least one entry survives, and \<open>error\<close> and
  no \<open>rates\<close> when none does. If some present target entry is not such an object, the
  exception is caught by the outer handler and the result has \<open>error\<close> and no \<open>rates\<close>.
\<close>

theorem C5_rates_are_the_coercible_entries:
  assumes "getenv E (cps ''CURRENCY_API_KEY'') = Some k" and "k \<noteq> []"
      and "requests_get E (currencyapi_request k (upper (unicode_upper E) (strip code))) = Inr resp"
      and "status_code resp = 200"
      and "resp_json resp = Inr payload"
      and "py_get payload (cps ''data'') (PDict []) = Inr (PDict d)"
  shows "\<exists>r. get_exchange_rates_for_currency E code =
             ([Getenv (cps ''CURRENCY_API_KEY''),
               HttpGet (currencyapi_request k (upper (unicode_upper E) (strip code)))], Inr r)
       \<and> (has_key r (cps ''error'') \<longleftrightarrow> \<not> has_key r (cps ''rates''))
       \<and> (entries_readable E d \<longrightarrow>
            (has_key r (cps ''error'') \<longleftrightarrow> coerced_rates E d target_currencies = [])
            \<and> (coerced_rates E d target_currencies \<noteq> [] \<longrightarrow>
                 map_of r (cps ''rates'') = Some (PDict (coerced_rates E d target_currencies))))
       \<and> (\<not> entries_readable E d \<longrightarrow> has_key r (cps ''error''))"
proof (cases "entries_readable E d")
  case True
  have "collect_rates E (PDict d) target_currencies [] = Inr (coerced_rates E d target_currencies)"
    using collect_rates_readable[where d=d and E=E and codes=target_currencies and acc="[]"] True distinct_targets
    by (simp add: entries_readable_def)
  then have "rates_of_response E (upper (unicode_upper E) (strip code)) resp =
      Inr (if coerced_rates E d target_currencies = [] then
             [(cps ''base_currency'', PStr (upper (unicode_upper E) (strip code))),
              (cps ''error'', PStr (cps ''No valid rates returned by CurrencyAPI.''))]
           else
             [(cps ''base_currency'', PStr (upper (unicode_upper E) (strip code))),
              (cps ''rates'', PDict (coerced_rates E d target_currencies)),
              (cps ''provider'', PStr (cps ''currencyapi.com''))])"
    using assms(4-6) by (simp add: rates_of_response_def sbind_def)
  then show ?thesis
    using rates_call[OF assms(1-3)] True by (simp add: has_key_def)
next
  case False
  then obtain e where "collect_rates E (PDict d) target_currencies [] = Inl e"
    using collect_rates_unreadable[where d=d and E=E and codes=target_currencies and acc="[]"]
    by (auto simp: entries_readable_def)
  then have "rates_of_response E (upper (unicode_upper E) (strip code)) resp = Inl e"
    using assms(4-6) by (simp add: rates_of_response_def sbind_def)
  then show ?thesis
    using rates_call[OF assms(1-3)] False by (simp add: has_key_def)
qed

text \<open>
  Claim C6, amended. Whenever the result of \<open>get_exchange_rates_for_currency\<close> has a
  \<open>rates\<close> mapping, the provider answered with status 200 and JSON, the mapping is not
  empty, and every entry of it has one of the four target codes as its key, a code that
  is in the provider's data, and as its value the float that \<open>float\<close> gives for that
  entry's \<open>value\<close> field, or for \<open>0.0\<close> when the entry has no such field. A value is
  never \<open>None\<close>; it need not be positive.
\<close>

theorem C6_rates_values_are_coerced_floats:
  assumes "get_exchange_rates_for_currency E code = (t, Inr r)"
      and "map_of r (cps ''rates'') = Some v"
  shows "\<exists>k resp payload data m.
           getenv E (cps ''CURRENCY_API_KEY'') = Some k
         \<and> requests_get E (currencyapi_request k (upper (unicode_upper E) (strip code))) = Inr resp
         \<and> status_code resp = 200
         \<and> resp_json resp = Inr payload
         \<and> py_get payload (cps ''data'') (PDict []) = Inr data
         \<and> v = PDict m \<and> m \<noteq> []
         \<and> (\<forall>(c, x) \<in> set m.
               c \<in> set target_currencies \<and> py_in c data = Inr True
               \<and> (\<exists>f. x = PFloat f \<and> entry_value E data c = Inr f))"
proof -
  obtain k where k: "getenv E (cps ''CURRENCY_API_KEY'') = Some k" "k \<noteq> []"
    using assms
    by (cases "getenv E (cps ''CURRENCY_API_KEY'')")
       (auto simp: get_exchange_rates_for_currency_def eff_defs Let_def split: if_splits)
  let ?base = "upper (unicode_upper E) (strip code)"
  obtain resp where resp: "requests_get E (currencyapi_request k ?base) = Inr resp"
    using assms k
    by (cases "requests_get E (currencyapi_request k ?base)")
       (auto simp: get_exchange_rates_for_currency_def eff_defs Let_def)
  have r: "r = (case rates_of_response E ?base resp of
                   Inr r \<Rightarrow> r
                 | Inl e \<Rightarrow>
                     [(cps ''base_currency'', PStr ?base),
                      (cps ''error'', PStr (cps ''Exception while calling CurrencyAPI: ''
                          @ str_of_exn E e))])"
    using rates_call[OF k resp] assms(1) by simp
  then obtain payload data m where
      "status_code resp = 200" "resp_json resp = Inr payload"
      "py_get payload (cps ''data'') (PDict []) = Inr data"
      "collect_rates E data target_currencies [] = Inr m" "m \<noteq> []" "v = PDict m"
    using assms(2)
    by (auto simp: rates_of_response_def sbind_def split: sum.splits if_splits)
  then show ?thesis
    using k resp collect_rates_sound[where E=E and data=data and codes=target_currencies and acc="[]" and r=m]
    by fastforce
qed

lemma cps_eq_Nil [simp]: "cps s = [] \<longleftrightarrow> s = []"
  by (simp add: cps_def)

lemma base_INR: "upper u (strip (cps ''INR'')) = cps ''INR''"
  by (simp add: upper_def strip_def py_isspace_def is_ascii_def ascii_upper_def cps_def)

lemma demo_getenv: "getenv (demo_env data) (cps ''CURRENCY_API_KEY'') = Some (cps ''demo-key'')"
  by (simp add: demo_env_def)

lemma demo_rates_get:
  "requests_get (demo_env data) (currencyapi_request k b) = Inr (rates_response data)"
  by (simp add: demo_env_def currencyapi_request_def)

lemma rates_demo:
  "get_exchange_rates_for_currency (demo_env data) (cps ''INR'') =
     ([Getenv (cps ''CURRENCY_API_KEY''),
       HttpGet (currencyapi_request (cps ''demo-key'') (cps ''INR''))],
      Inr (case rates_of_response (demo_env data) (cps ''INR'') (rates_response data) of
             Inr r \<Rightarrow> r
           | Inl e \<Rightarrow>
               [(cps ''base_currency'', PStr (cps ''INR'')),
                (cps ''error'', PStr (cps ''Exception while calling CurrencyAPI: ''
                    @ str_of_exn (demo_env data) e))]))"
  using rates_call[where E="demo_env data" and code="cps ''INR''" and k="cps ''demo-key''"
          and resp="rates_response data", unfolded base_INR]
  by (simp add: demo_getenv demo_rates_get)

lemmas rates_eval = rates_of_response_def rates_response_def sbind_def target_currencies_def
  entry_value_def

lemma rates_partial:
  "rates_of_response E (cps ''INR'') (rates_response (PDict partial_entries)) =
     Inr [(cps ''base_currency'', PStr (cps ''INR'')),
          (cps ''rates'', PDict [(cps ''USD'', PFloat (Fin (3 / 2))), (cps ''EUR'', PFloat (Fin 0))]),
          (cps ''provider'', PStr (cps ''currencyapi.com''))]"
  by (simp add: rates_eval partial_entries_def is_TypeError_or_ValueError_def)

lemma rates_no_value:
  "rates_of_response E (cps ''INR'') (rates_response (PDict no_value_entries)) =
     Inr [(cps ''base_currency'', PStr (cps ''INR'')),
          (cps ''rates'', PDict [(cps ''USD'', PFloat (Fin 0))]),
          (cps ''provider'', PStr (cps ''currencyapi.com''))]"
  by (simp add: rates_eval no_value_entries_def is_TypeError_or_ValueError_def)

lemma rates_negative:
  "rates_of_response E (cps ''INR'') (rates_response (PDict negative_entries)) =
     Inr [(cps ''base_currency'', PStr (cps ''INR'')),
          (cps ''rates'', PDict [(cps ''USD'', PFloat (Fin (- 5 / 2)))]),
          (cps ''provider'', PStr (cps ''currencyapi.com''))]"
  by (simp add: rates_eval negative_entries_def is_TypeError_or_ValueError_def)

lemma rates_boolean:
  "rates_of_response E (cps ''INR'') (rates_response (PDict boolean_entries)) =
     Inr [(cps ''base_currency'', PStr (cps ''INR'')),
          (cps ''rates'', PDict [(cps ''USD'', PFloat (Fin 1))]),
          (cps ''provider'', PStr (cps ''currencyapi.com''))]"
  by (simp add: rates_eval boolean_entries_def is_TypeError_or_ValueError_def)

lemma rates_unreadable:
  "rates_of_response E (cps ''INR'') (rates_response (PDict unreadable_entries)) = Inl AttributeError"
  by (simp add: rates_eval unreadable_entries_def is_TypeError_or_ValueError_def)

text \<open>
  Claim C5 as stated fails on two answers of the provider. An entry with no \<open>value\<close>
  field has no value to coerce, and yet its code is in \<open>rates\<close>, with \<open>0.0\<close>, and the
  result has no \<open>error\<close>. And when the USD entry holds 1.5 and the INR entry is the
  number 7 instead of an object, the USD value coerces, and yet the result has \<open>error\<close>
  and no \<open>rates\<close>.
\<close>

theorem C5_missing_value_and_unreadable_entry_counterexample:
  "get_exchange_rates_for_currency (demo_env (PDict no_value_entries)) (cps ''INR'') =
     ([Getenv (cps ''CURRENCY_API_KEY''),
       HttpGet (currencyapi_request (cps ''demo-key'') (cps ''INR''))],
      Inr [(cps ''base_currency'', PStr (cps ''INR'')),
           (cps ''rates'', PDict [(cps ''USD'', PFloat (Fin 0))]),
           (cps ''provider'', PStr (cps ''currencyapi.com''))])
   \<and> map_of no_value_entries (cps ''USD'') = Some (PDict [(cps ''code'', PStr (cps ''USD''))])
   \<and> entry_value (demo_env (PDict unreadable_entries)) (PDict unreadable_entries) (cps ''USD'')
       = Inr (Fin (3 / 2))
   \<and> (case get_exchange_rates_for_currency (demo_env (PDict unreadable_entries)) (cps ''INR'') of
         (t, Inr r) \<Rightarrow> has_key r (cps ''error'') \<and> \<not> has_key r (cps ''rates'')
       | (t, Inl e) \<Rightarrow> False)"
  by (simp add: rates_demo rates_no_value rates_unreadable)
     (simp add: no_value_entries_def unreadable_entries_def entry_value_def sbind_def)


lemma partial_readable: "entries_readable E partial_entries"
  by (simp add: entries_readable_def target_currencies_def partial_entries_def entry_readable_def)

lemma partial_coerced:
  "coerced_rates E partial_entries target_currencies =
     [(cps ''USD'', PFloat (Fin (3 / 2))), (cps ''EUR'', PFloat (Fin 0))]"
  by (simp add: coerced_rates_def target_currencies_def partial_entries_def sbind_def)

lemma unreadable_not_readable: "\<not> entries_readable E unreadable_entries"
  by (simp add: entries_readable_def target_currencies_def unreadable_entries_def entry_readable_def)

text \<open>
  The answer with USD 1.5, a \<open>null\<close> GBP value, an EUR entry without a value and no
  INR entry gives the rates USD 1.5 and EUR 0.0 and no \<open>error\<close>; the answer whose INR
  entry is a number gives \<open>error\<close>.
\<close>

theorem C5_witness:
  "getenv (demo_env (PDict partial_entries)) (cps ''CURRENCY_API_KEY'') = Some (cps ''demo-key'')
   \<and> entries_readable (demo_env (PDict partial_entries)) partial_entries
   \<and> (\<exists>r. get_exchange_rates_for_currency (demo_env (PDict partial_entries)) (cps ''INR'') =
             ([Getenv (cps ''CURRENCY_API_KEY''),
               HttpGet (currencyapi_request (cps ''demo-key'') (cps ''INR''))], Inr r)
          \<and> \<not> has_key r (cps ''error'')
          \<and> map_of r (cps ''rates'') =
              Some (PDict [(cps ''USD'', PFloat (Fin (3 / 2))), (cps ''EUR'', PFloat (Fin 0))]))
   \<and> \<not> entries_readable (demo_env (PDict unreadable_entries)) unreadable_entries
   \<and> (\<exists>r. get_exchange_rates_for_currency (demo_env (PDict unreadable_entries)) (cps ''INR'') =
             ([Getenv (cps ''CURRENCY_API_KEY''),
               HttpGet (currencyapi_request (cps ''demo-key'') (cps ''INR''))], Inr r)
          \<and> has_key r (cps ''error''))"
proof -
  have a: "\<exists>r. get_exchange_rates_for_currency (demo_env (PDict partial_entries)) (cps ''INR'') =
             ([Getenv (cps ''CURRENCY_API_KEY''),
               HttpGet (currencyapi_request (cps ''demo-key'') (cps ''INR''))], Inr r)
          \<and> \<not> has_key r (cps ''error'')
          \<and> map_of r (cps ''rates'') =
              Some (PDict [(cps ''USD'', PFloat (Fin (3 / 2))), (cps ''EUR'', PFloat (Fin 0))])"
    using C5_rates_are_the_coercible_entries
            [where E="demo_env (PDict partial_entries)" and code="cps ''INR''"
               and k="cps ''demo-key''" and resp="rates_response (PDict partial_entries)"
               and payload="PDict [(cps ''data'', PDict partial_entries)]" and d=partial_entries,
             unfolded base_INR]
    by (auto simp add: demo_getenv demo_rates_get rates_response_def partial_readable partial_coerced)
  have b: "\<exists>r. get_exchange_rates_for_currency (demo_env (PDict unreadable_entries)) (cps ''INR'') =
             ([Getenv (cps ''CURRENCY_API_KEY''),
               HttpGet (currencyapi_request (cps ''demo-key'') (cps ''INR''))], Inr r)
          \<and> has_key r (cps ''error'')"
    using C5_rates_are_the_coercible_entries
            [where E="demo_env (PDict unreadable_entries)" and code="cps ''INR''"
               and k="cps ''demo-key''" and resp="rates_response (PDict unreadable_entries)"
               and payload="PDict [(cps ''data'', PDict unreadable_entries)]" and d=unreadable_entries,
             unfolded base_INR]
    by (auto simp add: demo_getenv demo_rates_get rates_response_def unreadable_not_readable)
  show ?thesis
    using a b by (simp add: demo_getenv partial_readable unreadable_not_readable)
qed

text \<open>
  Claim C6 as stated fails on three answers of the provider: a negative value is
  passed on and is not positive; the boolean \<open>true\<close> is coerced to 1.0, a float that
  comes from a value that is not a number; and an entry with no \<open>value\<close> field is
  given the rate 0.0, which the provider did not return and which is not positive.
\<close>

theorem C6_not_positive_not_numeric_not_returned_counterexample:
  "get_exchange_rates_for_currency (demo_env (PDict negative_entries)) (cps ''INR'') =
     ([Getenv (cps ''CURRENCY_API_KEY''),
       HttpGet (currencyapi_request (cps ''demo-key'') (cps ''INR''))],
      Inr [(cps ''base_currency'', PStr (cps ''INR'')),
           (cps ''rates'', PDict [(cps ''USD'', PFloat (Fin (- 5 / 2)))]),
           (cps ''provider'', PStr (cps ''currencyapi.com''))])
   \<and> \<not> positive_float (Fin (- 5 / 2))
   \<and> get_exchange_rates_for_currency (demo_env (PDict boolean_entries)) (cps ''INR'') =
     ([Getenv (cps ''CURRENCY_API_KEY''),
       HttpGet (currencyapi_request (cps ''demo-key'') (cps ''INR''))],
      Inr [(cps ''base_currency'', PStr (cps ''INR'')),
           (cps ''rates'', PDict [(cps ''USD'', PFloat (Fin 1))]),
           (cps ''provider'', PStr (cps ''currencyapi.com''))])
   \<and> map_of boolean_entries (cps ''USD'') = Some (PDict [(cps ''value'', PBool True)])
   \<and> get_exchange_rates_for_currency (demo_env (PDict no_value_entries)) (cps ''INR'') =
     ([Getenv (cps ''CURRENCY_API_KEY''),
       HttpGet (currencyapi_request (cps ''demo-key'') (cps ''INR''))],
      Inr [(cps ''base_currency'', PStr (cps ''INR'')),
           (cps ''rates'', PDict [(cps ''USD'', PFloat (Fin 0))]),
           (cps ''provider'', PStr (cps ''currencyapi.com''))])
   \<and> map_of no_value_entries (cps ''USD'') = Some (PDict [(cps ''code'', PStr (cps ''USD''))])
   \<and> \<not> positive_float (Fin 0)"
  by (simp add: rates_demo rates_negative rates_boolean rates_no_value)
     (simp add: positive_float_def boolean_entries_def no_value_entries_def)

lemma rates_demo_partial:
  "get_exchange_rates_for_currency (demo_env (PDict partial_entries)) (cps ''INR'') =
     ([Getenv (cps ''CURRENCY_API_KEY''),
       HttpGet (currencyapi_request (cps ''demo-key'') (cps ''INR''))],
      Inr [(cps ''base_currency'', PStr (cps ''INR'')),
          (cps ''rates'', PDict [(cps ''USD'', PFloat (Fin (3 / 2))), (cps ''EUR'', PFloat (Fin 0))]),
          (cps ''provider'', PStr (cps ''currencyapi.com''))])"
  by (simp add: rates_demo rates_partial)

text \<open>
  In the answer with USD 1.5, a \<open>null\<close> GBP value and an EUR entry without a value,
  the result has \<open>rates\<close>, and what C6 says of it holds there.
\<close>

theorem C6_witness:
  "get_exchange_rates_for_currency (demo_env (PDict partial_entries)) (cps ''INR'') =
     ([Getenv (cps ''CURRENCY_API_KEY''),
       HttpGet (currencyapi_request (cps ''demo-key'') (cps ''INR''))],
      Inr [(cps ''base_currency'', PStr (cps ''INR'')),
          (cps ''rates'', PDict [(cps ''USD'', PFloat (Fin (3 / 2))), (cps ''EUR'', PFloat (Fin 0))]),
          (cps ''provider'', PStr (cps ''currencyapi.com''))])
   \<and> (\<exists>k resp payload data m.
           getenv (demo_env (PDict partial_entries)) (cps ''CURRENCY_API_KEY'') = Some k
         \<and> requests_get (demo_env (PDict partial_entries)) (currencyapi_request k (cps ''INR'')) = Inr resp
         \<and> status_code resp = 200
         \<and> resp_json resp = Inr payload
         \<and> py_get payload (cps ''data'') (PDict []) = Inr data
         \<and> PDict [(cps ''USD'', PFloat (Fin (3 / 2))), (cps ''EUR'', PFloat (Fin 0))] = PDict m
         \<and> m \<noteq> []
         \<and> (\<forall>(c, x) \<in> set m.
               c \<in> set target_currencies \<and> py_in c data = Inr True
               \<and> (\<exists>f. x = PFloat f \<and> entry_value (demo_env (PDict partial_entries)) data c = Inr f)))"
proof -
  have "map_of [(cps ''base_currency'', PStr (cps ''INR'')),
          (cps ''rates'', PDict [(cps ''USD'', PFloat (Fin (3 / 2))), (cps ''EUR'', PFloat (Fin 0))]),
          (cps ''provider'', PStr (cps ''currencyapi.com''))] (cps ''rates'')
        = Some (PDict [(cps ''USD'', PFloat (Fin (3 / 2))), (cps ''EUR'', PFloat (Fin 0))])"
    by simp
  from C6_rates_values_are_coerced_floats[OF rates_demo_partial this, unfolded base_INR]
  show ?thesis
    using rates_demo_partial by blast
qed

section \<open>The map link of the main exchange\<close>

lemma catalog_lists:
  assumes "map_of COUNTRY_STOCK_PROFILE k = Some exs"
  shows "exs \<in> {india_exchanges, united_states_exchanges, [], japan_exchanges,
                 united_kingdom_exchanges, south_korea_exchanges, china_exchanges}"
  using map_of_SomeD[OF assms] by (auto simp: COUNTRY_STOCK_PROFILE_def)

lemma catalog_addresses:
  assumes "exs \<in> {india_exchanges, united_states_exchanges, [], japan_exchanges,
                 united_kingdom_exchanges, south_korea_exchanges, china_exchanges}"
      and "ex \<in> set exs"
  shows "\<not> has_surrogate (headquarters_address ex)"
  using assms
  by (auto simp: india_exchanges_def united_states_exchanges_def japan_exchanges_def
        united_kingdom_exchanges_def south_korea_exchanges_def china_exchanges_def
        has_surrogate_def is_surrogate_def cps_def)

lemma configured_addresses:
  assumes "ex \<in> set (configured E c)"
  shows "\<not> has_surrogate (headquarters_address ex)"
proof (cases "map_of COUNTRY_STOCK_PROFILE (resolve_profile_key E c)")
  case None
  then show ?thesis using assms by (simp add: configured_def)
next
  case (Some exs)
  then have "configured E c = exs" by (simp add: configured_def)
  then show ?thesis
    using catalog_addresses[OF catalog_lists[OF Some]] assms by simp
qed

lemma link_unconfigured:
  "main_exchange_link [(cps ''country'', x), (cps ''exchanges'', PList []), (cps ''error'', y)]
     = Inr (PNone, PNone)"
  by (simp add: main_exchange_link_def)

lemma link_configured:
  assumes "priced_exchange ex r"
      and "get_google_maps_link_for_address (headquarters_address ex) = Inr u"
  shows "main_exchange_link [(cps ''country'', x), (cps ''exchanges'', PList (r # rs))]
     = Inr (PStr (headquarters_address ex),
            if headquarters_address ex = [] then PNone else PStr u)"
proof -
  obtain d where d: "r = PDict d"
      "map_of d (cps ''headquarters_address'') = Some (PStr (headquarters_address ex))"
    using assms(1) by (cases r) (auto simp: priced_exchange_def)
  show ?thesis
    using d assms(2) by (simp add: main_exchange_link_def sbind_def)
qed

lemma stock_link_total:
  assumes "get_country_stock_profile E c = (t, Inr st)"
  shows "\<exists>hq link. main_exchange_link st = Inr (hq, link)"
proof (cases "configured E c = []")
  case True
  then show ?thesis
    using stock_profile_unconfigured[OF True] assms link_unconfigured by auto
next
  case False
  then obtain ex exs where exs: "configured E c = ex # exs" by (cases "configured E c") auto
  obtain t' res where r: "get_country_stock_profile E c =
           (t', Inr [(cps ''country'', PStr (strip c)), (cps ''exchanges'', PList res)])"
      "list_all2 priced_exchange (configured E c) res"
    using stock_profile_configured[OF False] by blast
  obtain r' rs where res: "res = r' # rs" "priced_exchange ex r'"
    using r(2) exs by (auto simp: list_all2_Cons1)
  obtain u where u: "get_google_maps_link_for_address (headquarters_address ex) = Inr u"
    using maps_link_total[OF configured_addresses[of ex E c]] exs by auto
  show ?thesis
    using link_configured[OF res(2) u] r(1) res(1) assms by auto
qed

lemma currency_code_is_str:
  assumes "get_currency_for_country E c = (t, Inr d)" and "has_key d (cps ''currency_code'')"
  shows "\<exists>code. map_of d (cps ''currency_code'') = Some (PStr code)"
proof (cases "map_of COUNTRY_CURRENCY_MAP (normalize_country E c)")
  case None
  then show ?thesis using currency_remote[OF None] assms by auto
next
  case (Some a)
  then show ?thesis using currency_local[of E c "fst a" "snd a"] assms by auto
qed

lemma build_result:
  assumes "get_currency_for_country E (strip c) = (t1, Inr cur)"
      and "exchange_rates_step E cur = (t2, Inr fx)"
      and "get_country_stock_profile E (strip c) = (t3, Inr st)"
      and "main_exchange_link st = Inr (hq, link)"
  shows "build_country_financial_profile E c =
           (t1 @ t2 @ t3,
            Inr [(cps ''country'', PStr (strip c)),
                 (cps ''currency'', PDict cur),
                 (cps ''exchange_rates'', PDict fx),
                 (cps ''stocks'', PDict st),
                 (cps ''main_exchange_hq_address'', hq),
                 (cps ''google_maps_link'', link)])"
  using assms by (simp add: build_country_financial_profile_def bind_def ret_def lift_def)

lemma stock_total: "\<exists>t d. get_country_stock_profile E s = (t, Inr d)"
  using stock_profile_unconfigured[of E s] stock_profile_configured[of E s]
  by (cases "configured E s = []") auto

lemma build_total: "\<exists>t d. build_country_financial_profile E s = (t, Inr d)"
proof -
  obtain t1 cur where cur: "get_currency_for_country E (strip s) = (t1, Inr cur)"
    using currency_total by blast
  obtain t3 st where st: "get_country_stock_profile E (strip s) = (t3, Inr st)"
    using stock_total by blast
  obtain hq link where link: "main_exchange_link st = Inr (hq, link)"
    using stock_link_total[OF st] by blast
  have "\<exists>t2 fx. exchange_rates_step E cur = (t2, Inr fx)"
  proof (cases "has_key cur (cps ''currency_code'')")
    case True
    then obtain code where "map_of cur (cps ''currency_code'') = Some (PStr code)"
      using currency_code_is_str[OF cur] by blast
    then show ?thesis using True rates_total[of E code] by (simp add: exchange_rates_step_def)
  next
    case False
    then show ?thesis by (simp add: exchange_rates_step_def ret_def)
  qed
  then obtain t2 fx where fx: "exchange_rates_step E cur = (t2, Inr fx)" by blast
  show ?thesis using build_result[OF cur fx st link] by blast
qed


lemma currency_raised:
  assumes "map_of COUNTRY_CURRENCY_MAP (normalize_country E s) = None"
      and "requests_get E (restcountries_request s) = Inl e
           \<or> (\<exists>resp. requests_get E (restcountries_request s) = Inr resp
                     \<and> currency_of_response s resp = Inl e)"
  shows "\<exists>t d. get_currency_for_country E s = (t, Inr d) \<and> has_key d (cps ''error'')"
  using assms by (auto simp: get_currency_for_country_def eff_defs)

lemma rates_raised:
  assumes "getenv E (cps ''CURRENCY_API_KEY'') = Some k" and "k \<noteq> []"
      and "requests_get E (currencyapi_request k (upper (unicode_upper E) (strip s))) = Inl e
           \<or> (\<exists>resp. requests_get E (currencyapi_request k (upper (unicode_upper E) (strip s))) = Inr resp
                     \<and> rates_of_response E (upper (unicode_upper E) (strip s)) resp = Inl e)"
  shows "\<exists>t d. get_exchange_rates_for_currency E s = (t, Inr d) \<and> has_key d (cps ''error'')"
  using assms by (auto simp: get_exchange_rates_for_currency_def eff_defs Let_def)

lemma price_raised:
  assumes "ticker_history E s = Inl e"
  shows "fetch_latest_price E s = ([TickerHistory s], Inr PNone)"
  using assms by (simp add: fetch_latest_price_def eff_defs)

section \<open>Totality\<close>

text \<open>
  Claim C1, amended. In every world and for every string, \<open>get_currency_for_country\<close>,
  \<open>get_exchange_rates_for_currency\<close>, \<open>get_country_stock_profile\<close> and
  \<open>build_country_financial_profile\<close> return a dictionary and do not raise.
  \<open>get_google_maps_link_for_address\<close>, which has no exception handler, returns a URL
  for every string without a surrogate code point. An exception of the country lookup
  or of the rates request, raised by the call itself or while its answer is read, gives a
  result with an \<open>error\<close> field, and an exception of a price fetch gives the price
  \<open>None\<close>.
\<close>

theorem C1_components_total:
  "(\<exists>t d. get_currency_for_country E s = (t, Inr d))
   \<and> (\<exists>t d. get_exchange_rates_for_currency E s = (t, Inr d))
   \<and> (\<exists>t d. get_country_stock_profile E s = (t, Inr d))
   \<and> (\<exists>t d. build_country_financial_profile E s = (t, Inr d))
   \<and> (\<not> has_surrogate s \<longrightarrow> (\<exists>u. get_google_maps_link_for_address s = Inr u))
   \<and> (map_of COUNTRY_CURRENCY_MAP (normalize_country E s) = None
        \<and> (requests_get E (restcountries_request s) = Inl e
            \<or> (\<exists>resp. requests_get E (restcountries_request s) = Inr resp
                     \<and> currency_of_response s resp = Inl e))
        \<longrightarrow> (\<exists>t d. get_currency_for_country E s = (t, Inr d) \<and> has_key d (cps ''error'')))
   \<and> (getenv E (cps ''CURRENCY_API_KEY'') = Some k \<and> k \<noteq> []
        \<and> (requests_get E (currencyapi_request k (upper (unicode_upper E) (strip s))) = Inl e
            \<or> (\<exists>resp. requests_get E (currencyapi_request k (upper (unicode_upper E) (strip s))) = Inr resp
                     \<and> rates_of_response E (upper (unicode_upper E) (strip s)) resp = Inl e))
        \<longrightarrow> (\<exists>t d. get_exchange_rates_for_currency E s = (t, Inr d) \<and> has_key d (cps ''error'')))
   \<and> (ticker_history E s = Inl e \<longrightarrow> fetch_latest_price E s = ([TickerHistory s], Inr PNone))"
  using currency_total[of E s] rates_total[of E s] stock_total[of E s] build_total[of E s]
    maps_link_total[of s] currency_raised[of E s e] rates_raised[of E k s e] price_raised[of E s e]
  by blast

text \<open>
  Claim C1 as stated fails for the link builder: on the string that consists of the
  lone surrogate U+D800 the UTF-8 encoding inside \<open>quote_plus\<close> raises, and nothing
  catches the exception.
\<close>

theorem C1_maps_link_raises_on_surrogate_counterexample:
  "get_google_maps_link_for_address [55296] = Inl UnicodeEncodeError"
  by (simp add: maps_eval)

lemma upper_ATLANTIS: "upper u (strip (cps ''Atlantis'')) = cps ''ATLANTIS''"
  by (simp add: upper_def strip_def py_isspace_def is_ascii_def ascii_upper_def cps_def)

lemma offline_facts:
  "getenv offline_env (cps ''CURRENCY_API_KEY'') = Some (cps ''demo-key'')"
  "requests_get offline_env req = Inl (OtherError (cps ''connection refused''))"
  "ticker_history offline_env sy = Inl (OtherError (cps ''connection refused''))"
  by (simp_all add: offline_env_def demo_env_def)

lemma Atlantis_no_surrogate: "\<not> has_surrogate (cps ''Atlantis'')"
  by (simp add: has_surrogate_def is_surrogate_def cps_def)

text \<open>
  In the world where every remote call raises, the input "Atlantis" meets every
  hypothesis of C1.
\<close>

theorem C1_witness:
  "\<not> has_surrogate (cps ''Atlantis'')
   \<and> (\<exists>u. get_google_maps_link_for_address (cps ''Atlantis'') = Inr u)
   \<and> map_of COUNTRY_CURRENCY_MAP (normalize_country offline_env (cps ''Atlantis'')) = None
   \<and> requests_get offline_env (restcountries_request (cps ''Atlantis''))
       = Inl (OtherError (cps ''connection refused''))
   \<and> (\<exists>t d. get_currency_for_country offline_env (cps ''Atlantis'') = (t, Inr d)
            \<and> has_key d (cps ''error''))
   \<and> getenv offline_env (cps ''CURRENCY_API_KEY'') = Some (cps ''demo-key'')
   \<and> requests_get offline_env (currencyapi_request (cps ''demo-key'') (cps ''ATLANTIS''))
       = Inl (OtherError (cps ''connection refused''))
   \<and> (\<exists>t d. get_exchange_rates_for_currency offline_env (cps ''Atlantis'') = (t, Inr d)
            \<and> has_key d (cps ''error''))
   \<and> ticker_history offline_env (cps ''Atlantis'') = Inl (OtherError (cps ''connection refused''))
   \<and> fetch_latest_price offline_env (cps ''Atlantis'') = ([TickerHistory (cps ''Atlantis'')], Inr PNone)
   \<and> (\<exists>t d. get_country_stock_profile offline_env (cps ''Atlantis'') = (t, Inr d))
   \<and> (\<exists>t d. build_country_financial_profile offline_env (cps ''Atlantis'') = (t, Inr d))"
  using C1_components_total[of offline_env "cps ''Atlantis''"
          "OtherError (cps ''connection refused'')" "cps ''demo-key''", unfolded upper_ATLANTIS]
  by (simp add: offline_facts Atlantis_no_surrogate normalize_Atlantis currency_map_atlantis)

section \<open>The effects of the tools\<close>

lemma currency_trace:
  assumes "get_currency_for_country E c = (t, r)"
  shows "t = [] \<or> t = [HttpGet (restcountries_request c)]"
  using assms
  by (auto simp: get_currency_for_country_def eff_defs split: option.splits sum.splits prod.splits)

lemma result_exchanges_trace:
  assumes "result_exchanges E exs = (t, r)" and "ev \<in> set t"
  shows "\<exists>sy. ev = TickerHistory sy"
  using assms
proof (induction exs arbitrary: t r)
  case Nil
  then show ?case by (simp add: ret_def)
next
  case (Cons ex exs)
  obtain ps where ps: "indices_with_prices E (indices ex) =
      (map (\<lambda>i. TickerHistory (symbol i)) (indices ex), Inr ps)"
    using indices_with_prices_total by blast
  obtain t' res where r: "result_exchanges E exs = (t', Inr res)"
    using result_exchanges_total by blast
  have "t = map (\<lambda>i. TickerHistory (symbol i)) (indices ex) @ t'"
    using Cons.prems(1) ps r by (simp add: bind_def ret_def)
  then show ?case
    using Cons.IH[OF r] Cons.prems(2) by auto
qed

lemma stock_trace:
  assumes "get_country_stock_profile E c = (t, r)" and "ev \<in> set t"
  shows "\<exists>sy. ev = TickerHistory sy"
proof (cases "configured E c = []")
  case True
  then show ?thesis using stock_profile_unconfigured[OF True] assms by simp
next
  case False
  then obtain t' res where "get_country_stock_profile E c =
           (t', Inr [(cps ''country'', PStr (strip c)), (cps ''exchanges'', PList res)])"
     "result_exchanges E (configured E c) = (t', Inr res)"
    using stock_profile_configured[OF False] by blast
  then show ?thesis
    using result_exchanges_trace[of E "configured E c" t' "Inr res" ev] assms by simp
qed

lemma rates_trace:
  assumes "get_exchange_rates_for_currency E c = (t, r)"
  shows "Getenv (cps ''CURRENCY_API_KEY'') \<in> set t"
  using assms
  by (auto simp: get_exchange_rates_for_currency_def eff_defs Let_def
        split: option.splits sum.splits prod.splits if_splits)

lemma request_urls_differ: "currencyapi_request k b \<noteq> restcountries_request c"
proof
  assume "currencyapi_request k b = restcountries_request c"
  then have "url (currencyapi_request k b) = url (restcountries_request c)" by simp
  then show False
    by (simp add: restcountries_request_def currencyapi_request_def cps_def)
qed

section \<open>The orchestrator\<close>

text \<open>
  Claim C2, amended. The first effect of \<open>get_exchange_rates_for_currency\<close> is to read
  \<open>CURRENCY_API_KEY\<close>, which nothing else in the orchestrator reads. In
  \<open>build_country_financial_profile\<close> this read happens if and only if the currency
  result has a \<open>currency_code\<close>. When it has one, \<open>exchange_rates\<close> is the result of
  \<open>get_exchange_rates_for_currency\<close> on that code and the effects of the call lie
  between those of the currency lookup and those of the stock profile; when it has none,
  no request goes to the rates provider and \<open>exchange_rates\<close> is exactly the object
  with the one field \<open>error\<close> = "Could not determine currency code for this country;
  FX rates unavailable.".
\<close>

theorem C2_rates_fetched_iff_currency_code:
  "\<exists>t1 cur t p.
      get_currency_for_country E (strip c) = (t1, Inr cur)
    \<and> build_country_financial_profile E c = (t, Inr p)
    \<and> map_of p (cps ''currency'') = Some (PDict cur)
    \<and> (Getenv (cps ''CURRENCY_API_KEY'') \<in> set t \<longleftrightarrow> has_key cur (cps ''currency_code''))
    \<and> (has_key cur (cps ''currency_code'') \<longrightarrow>
         (\<exists>code t2 fx t3.
             map_of cur (cps ''currency_code'') = Some (PStr code)
           \<and> get_exchange_rates_for_currency E code = (t2, Inr fx)
           \<and> t = t1 @ t2 @ t3
           \<and> map_of p (cps ''exchange_rates'') = Some (PDict fx)))
    \<and> (\<not> has_key cur (cps ''currency_code'') \<longrightarrow>
         map_of p (cps ''exchange_rates'') =
           Some (PDict [(cps ''error'', PStr (cps
             ''Could not determine currency code for this country; FX rates unavailable.''))])
         \<and> (\<forall>k b. HttpGet (currencyapi_request k b) \<notin> set t))"
proof -
  obtain t1 cur where cur: "get_currency_for_country E (strip c) = (t1, Inr cur)"
    using currency_total by blast
  obtain t3 st where st: "get_country_stock_profile E (strip c) = (t3, Inr st)"
    using stock_total by blast
  obtain hq link where link: "main_exchange_link st = Inr (hq, link)"
    using stock_link_total[OF st] by blast
  have t1: "Getenv (cps ''CURRENCY_API_KEY'') \<notin> set t1"
      "\<And>k b. HttpGet (currencyapi_request k b) \<notin> set t1"
    using currency_trace[OF cur] request_urls_differ[where c="strip c"] by auto
  have t3: "Getenv (cps ''CURRENCY_API_KEY'') \<notin> set t3"
      "\<And>k b. HttpGet (currencyapi_request k b) \<notin> set t3"
    using stock_trace[OF st] by auto
  show ?thesis
  proof (cases "has_key cur (cps ''currency_code'')")
    case True
    then obtain code where code: "map_of cur (cps ''currency_code'') = Some (PStr code)"
      using currency_code_is_str[OF cur] by blast
    obtain t2 fx where fx: "get_exchange_rates_for_currency E code = (t2, Inr fx)"
      using rates_total by blast
    have step: "exchange_rates_step E cur = (t2, Inr fx)"
      using True code fx by (simp add: exchange_rates_step_def)
    have "Getenv (cps ''CURRENCY_API_KEY'') \<in> set (t1 @ t2 @ t3)"
      using rates_trace[OF fx] by simp
    then show ?thesis
      using build_result[OF cur step st link] cur True code fx by auto
  next
    case False
    have step: "exchange_rates_step E cur =
        ([], Inr [(cps ''error'', PStr (cps
             ''Could not determine currency code for this country; FX rates unavailable.''))])"
      using False by (simp add: exchange_rates_step_def ret_def)
    show ?thesis
      using build_result[OF cur step st link] cur False t1 t3 by auto
  qed
qed

lemma configured_Atlantis: "configured E (cps ''Atlantis'') = []"
  by (simp add: configured_of_norm normalize_Atlantis COUNTRY_STOCK_PROFILE_def)

lemma build_Atlantis:
  "build_country_financial_profile (demo_env data) (cps ''Atlantis'') =
     ([HttpGet (restcountries_request (cps ''Atlantis''))],
      Inr [(cps ''country'', PStr (cps ''Atlantis'')),
           (cps ''currency'', PDict
              [(cps ''country'', PStr (cps ''Atlantis'')),
               (cps ''error'', PStr (cps ''Failed to resolve currency via RestCountries (status 404).''))]),
           (cps ''exchange_rates'', PDict
              [(cps ''error'', PStr (cps
                 ''Could not determine currency code for this country; FX rates unavailable.''))]),
           (cps ''stocks'', PDict
              [(cps ''country'', PStr (cps ''Atlantis'')), (cps ''exchanges'', PList []),
               (cps ''error'', PStr (cps ''No stock exchange profile configured for this country.''))]),
           (cps ''main_exchange_hq_address'', PNone),
           (cps ''google_maps_link'', PNone)])"
proof -
  have cur: "get_currency_for_country (demo_env data) (strip (cps ''Atlantis'')) =
     ([HttpGet (restcountries_request (cps ''Atlantis''))],
      Inr [(cps ''country'', PStr (cps ''Atlantis'')),
           (cps ''error'', PStr (cps ''Failed to resolve currency via RestCountries (status 404).''))])"
    by (simp add: strip_literals currency_Atlantis)
  have step: "exchange_rates_step (demo_env data)
        [(cps ''country'', PStr (cps ''Atlantis'')),
         (cps ''error'', PStr (cps ''Failed to resolve currency via RestCountries (status 404).''))]
      = ([], Inr [(cps ''error'', PStr (cps
                 ''Could not determine currency code for this country; FX rates unavailable.''))])"
    by (simp add: exchange_rates_step_def ret_def)
  have st: "get_country_stock_profile (demo_env data) (strip (cps ''Atlantis'')) =
      ([], Inr [(cps ''country'', PStr (cps ''Atlantis'')), (cps ''exchanges'', PList []),
               (cps ''error'', PStr (cps ''No stock exchange profile configured for this country.''))])"
    using stock_profile_unconfigured[OF configured_Atlantis, of "demo_env data"]
    by (simp add: strip_literals)
  show ?thesis
    using build_result[OF cur step st link_unconfigured] by (simp add: strip_literals)
qed

text \<open>
  Claim C2 as stated gives the error object the text "could not determine currency
  code; FX rates unavailable". For "Atlantis", which the country provider does not know,
  no rates are fetched and the object holds another text.
\<close>

theorem C2_error_text_counterexample:
  "build_country_financial_profile (demo_env PNone) (cps ''Atlantis'') =
     ([HttpGet (restcountries_request (cps ''Atlantis''))],
      Inr [(cps ''country'', PStr (cps ''Atlantis'')),
           (cps ''currency'', PDict
              [(cps ''country'', PStr (cps ''Atlantis'')),
               (cps ''error'', PStr (cps ''Failed to resolve currency via RestCountries (status 404).''))]),
           (cps ''exchange_rates'', PDict
              [(cps ''error'', PStr (cps
                 ''Could not determine currency code for this country; FX rates unavailable.''))]),
           (cps ''stocks'', PDict
              [(cps ''country'', PStr (cps ''Atlantis'')), (cps ''exchanges'', PList []),
               (cps ''error'', PStr (cps ''No stock exchange profile configured for this country.''))]),
           (cps ''main_exchange_hq_address'', PNone),
           (cps ''google_maps_link'', PNone)])
   \<and> PDict [(cps ''error'', PStr (cps
         ''Could not determine currency code for this country; FX rates unavailable.''))]
     \<noteq> PDict [(cps ''error'', PStr (cps
         ''could not determine currency code; FX rates unavailable''))]"
  by (simp add: build_Atlantis)

lemma result_exchanges_trace_exact:
  "fst (result_exchanges E exs) =
     concat (map (\<lambda>ex. map (\<lambda>i. TickerHistory (symbol i)) (indices ex)) exs)"
proof (induction exs)
  case Nil
  show ?case by (simp add: ret_def)
next
  case (Cons ex exs)
  obtain ps where ps: "indices_with_prices E (indices ex) =
      (map (\<lambda>i. TickerHistory (symbol i)) (indices ex), Inr ps)"
    using indices_with_prices_total by blast
  obtain t' res where r: "result_exchanges E exs = (t', Inr res)"
    using result_exchanges_total by blast
  show ?case
    using Cons.IH ps r by (simp add: bind_def ret_def)
qed

lemma india_trace:
  "concat (map (\<lambda>ex. map (\<lambda>i. TickerHistory (symbol i)) (indices ex)) india_exchanges) =
     [TickerHistory (cps ''^NSEI''), TickerHistory (cps ''^CNX100''), TickerHistory (cps ''^BSESN'')]"
  by (simp add: india_exchanges_def)

lemma india_head:
  "india_exchanges = hd india_exchanges # tl india_exchanges"
  "headquarters_address (hd india_exchanges) = cps
      ''Exchange Plaza, Bandra Kurla Complex, Bandra East, Mumbai, Maharashtra 400051, India''"
  "map StockExchange.name india_exchanges =
     [cps ''National Stock Exchange of India (NSE)'', cps ''Bombay Stock Exchange (BSE)'']"
  by (simp_all add: india_exchanges_def)

lemma rates_readable_result:
  assumes "getenv E (cps ''CURRENCY_API_KEY'') = Some k" and "k \<noteq> []"
      and "requests_get E (currencyapi_request k (upper (unicode_upper E) (strip code))) = Inr resp"
      and "status_code resp = 200"
      and "resp_json resp = Inr payload"
      and "py_get payload (cps ''data'') (PDict []) = Inr (PDict d)"
      and "entries_readable E d"
      and "coerced_rates E d target_currencies \<noteq> []"
  shows "get_exchange_rates_for_currency E code =
             ([Getenv (cps ''CURRENCY_API_KEY''),
               HttpGet (currencyapi_request k (upper (unicode_upper E) (strip code)))],
              Inr [(cps ''base_currency'', PStr (upper (unicode_upper E) (strip code))),
                   (cps ''rates'', PDict (coerced_rates E d target_currencies)),
                   (cps ''provider'', PStr (cps ''currencyapi.com''))])"
proof -
  have "collect_rates E (PDict d) target_currencies [] = Inr (coerced_rates E d target_currencies)"
    using collect_rates_readable[where d=d and E=E and codes=target_currencies and acc="[]"]
      assms(7) distinct_targets
    by (simp add: entries_readable_def)
  then have "rates_of_response E (upper (unicode_upper E) (strip code)) resp =
      Inr [(cps ''base_currency'', PStr (upper (unicode_upper E) (strip code))),
           (cps ''rates'', PDict (coerced_rates E d target_currencies)),
           (cps ''provider'', PStr (cps ''currencyapi.com''))]"
    using assms(4-6,8) by (simp add: rates_of_response_def sbind_def)
  then show ?thesis
    using rates_call[OF assms(1-3)] by simp
qed

lemma has_key_append: "has_key (a @ b) k = (has_key a k \<or> has_key b k)"
  by (induction a) auto

lemma float_value_entry:
  assumes "has_float_value d c"
  shows "\<exists>f. (case map_of d c of
        None \<Rightarrow> []
      | Some entry \<Rightarrow>
          (case sbind (py_get entry (cps ''value'') (PFloat (Fin 0))) (py_float E) of
             Inl e \<Rightarrow> []
           | Inr f \<Rightarrow> [(c, PFloat f)])) = [(c, PFloat f)]"
proof (cases "map_of d c")
  case None
  then show ?thesis using assms by (simp add: has_float_value_def)
next
  case (Some entry)
  show ?thesis
  proof (cases entry)
    case (PDict fs)
    show ?thesis
    proof (cases "map_of fs (cps ''value'')")
      case None
      then show ?thesis using assms Some PDict by (simp add: has_float_value_def)
    next
      case v: (Some v)
      then show ?thesis using assms Some PDict
        by (cases v) (simp_all add: has_float_value_def sbind_def)
    qed
  qed (use assms Some in \<open>simp_all add: has_float_value_def\<close>)
qed

lemma coerced_has_float_value:
  assumes "has_float_value d c" and "c \<in> set codes"
  shows "has_key (coerced_rates E d codes) c"
  using assms(2)
proof (induction codes)
  case Nil
  then show ?case by simp
next
  case (Cons code codes)
  show ?case
  proof (cases "c = code")
    case True
    obtain f where "(case map_of d c of
        None \<Rightarrow> []
      | Some entry \<Rightarrow>
          (case sbind (py_get entry (cps ''value'') (PFloat (Fin 0))) (py_float E) of
             Inl e \<Rightarrow> []
           | Inr f \<Rightarrow> [(c, PFloat f)])) = [(c, PFloat f)]"
      using float_value_entry[OF assms(1)] by blast
    then have "coerced_rates E d (code # codes) = (c, PFloat f) # coerced_rates E d codes"
      using True by (simp only: coerced_rates_Cons append_Cons append_Nil)
    then show ?thesis by simp
  next
    case False
    then have "has_key (coerced_rates E d codes) c" using Cons by simp
    then show ?thesis
      by (simp only: coerced_rates_Cons has_key_append simp_thms)
  qed
qed

lemma nse_link:
  "get_google_maps_link_for_address (cps
      ''Exchange Plaza, Bandra Kurla Complex, Bandra East, Mumbai, Maharashtra 400051, India'') =
   Inr (cps ''https://www.google.com/maps/search/?api=1&query=Exchange+Plaza%2C+Bandra+Kurla+Complex%2C+Bandra+East%2C+Mumbai%2C+Maharashtra+400051%2C+India'')"
  by (simp add: maps_eval)

text \<open>
  India has a currency code, so the key is read and the rates are those of the call on
  "INR"; Atlantis has none, so the key is not read and the rates are the error object.
\<close>

theorem C2_witness:
  "(\<exists>t p t2 fx t3.
       build_country_financial_profile (demo_env (PDict healthy_entries)) (cps ''India'') = (t, Inr p)
     \<and> Getenv (cps ''CURRENCY_API_KEY'') \<in> set t
     \<and> get_exchange_rates_for_currency (demo_env (PDict healthy_entries)) (cps ''INR'') = (t2, Inr fx)
     \<and> t = t2 @ t3
     \<and> map_of p (cps ''exchange_rates'') = Some (PDict fx))
   \<and> (\<exists>t p.
       build_country_financial_profile (demo_env (PDict healthy_entries)) (cps ''Atlantis'') = (t, Inr p)
     \<and> Getenv (cps ''CURRENCY_API_KEY'') \<notin> set t
     \<and> map_of p (cps ''exchange_rates'') =
           Some (PDict [(cps ''error'', PStr (cps
             ''Could not determine currency code for this country; FX rates unavailable.''))]))"
proof
  obtain t1 cur t p where a:
      "get_currency_for_country (demo_env (PDict healthy_entries)) (strip (cps ''India'')) = (t1, Inr cur)"
      "build_country_financial_profile (demo_env (PDict healthy_entries)) (cps ''India'') = (t, Inr p)"
      "Getenv (cps ''CURRENCY_API_KEY'') \<in> set t \<longleftrightarrow> has_key cur (cps ''currency_code'')"
      "has_key cur (cps ''currency_code'') \<longrightarrow>
         (\<exists>code t2 fx t3.
             map_of cur (cps ''currency_code'') = Some (PStr code)
           \<and> get_exchange_rates_for_currency (demo_env (PDict healthy_entries)) code = (t2, Inr fx)
           \<and> t = t1 @ t2 @ t3
           \<and> map_of p (cps ''exchange_rates'') = Some (PDict fx))"
    using C2_rates_fetched_iff_currency_code[of "demo_env (PDict healthy_entries)" "cps ''India''"]
    by blast
  have cur: "t1 = []" "cur = [(cps ''country'', PStr (cps ''India'')),
               (cps ''currency_name'', PStr (cps ''Indian Rupee'')),
               (cps ''currency_code'', PStr (cps ''INR'')),
               (cps ''source'', PStr (cps ''local_mapping''))]"
    using a(1) by (simp_all add: strip_literals currency_India)
  have k: "has_key cur (cps ''currency_code'')" by (simp add: cur(2))
  then obtain code t2 fx t3 where b:
      "map_of cur (cps ''currency_code'') = Some (PStr code)"
      "get_exchange_rates_for_currency (demo_env (PDict healthy_entries)) code = (t2, Inr fx)"
      "t = t1 @ t2 @ t3" "map_of p (cps ''exchange_rates'') = Some (PDict fx)"
    using a(4) by blast
  have "code = cps ''INR''" using b(1) by (simp add: cur(2))
  then show "\<exists>t p t2 fx t3.
       build_country_financial_profile (demo_env (PDict healthy_entries)) (cps ''India'') = (t, Inr p)
     \<and> Getenv (cps ''CURRENCY_API_KEY'') \<in> set t
     \<and> get_exchange_rates_for_currency (demo_env (PDict healthy_entries)) (cps ''INR'') = (t2, Inr fx)
     \<and> t = t2 @ t3
     \<and> map_of p (cps ''exchange_rates'') = Some (PDict fx)"
    using a(2,3) k b cur(1) by auto
next
  obtain t1 cur t p where a:
      "get_currency_for_country (demo_env (PDict healthy_entries)) (strip (cps ''Atlantis'')) = (t1, Inr cur)"
      "build_country_financial_profile (demo_env (PDict healthy_entries)) (cps ''Atlantis'') = (t, Inr p)"
      "Getenv (cps ''CURRENCY_API_KEY'') \<in> set t \<longleftrightarrow> has_key cur (cps ''currency_code'')"
      "\<not> has_key cur (cps ''currency_code'') \<longrightarrow>
         map_of p (cps ''exchange_rates'') =
           Some (PDict [(cps ''error'', PStr (cps
             ''Could not determine currency code for this country; FX rates unavailable.''))])
         \<and> (\<forall>k b. HttpGet (currencyapi_request k b) \<notin> set t)"
    using C2_rates_fetched_iff_currency_code[of "demo_env (PDict healthy_entries)" "cps ''Atlantis''"]
    by blast
  have "cur = [(cps ''country'', PStr (cps ''Atlantis'')),
           (cps ''error'', PStr (cps ''Failed to resolve currency via RestCountries (status 404).''))]"
    using a(1) by (simp add: strip_literals currency_Atlantis)
  then have "\<not> has_key cur (cps ''currency_code'')" by simp
  then show "\<exists>t p.
       build_country_financial_profile (demo_env (PDict healthy_entries)) (cps ''Atlantis'') = (t, Inr p)
     \<and> Getenv (cps ''CURRENCY_API_KEY'') \<notin> set t
     \<and> map_of p (cps ''exchange_rates'') =
           Some (PDict [(cps ''error'', PStr (cps
             ''Could not determine currency code for this country; FX rates unavailable.''))])"
    using a(2,3,4) by auto
qed

lemma build_India:
  assumes "getenv E (cps ''CURRENCY_API_KEY'') = Some k" and "k \<noteq> []"
      and "requests_get E (currencyapi_request k (cps ''INR'')) = Inr resp"
      and "status_code resp = 200"
      and "resp_json resp = Inr payload"
      and "py_get payload (cps ''data'') (PDict []) = Inr (PDict d)"
      and "entries_readable E d"
      and "coerced_rates E d target_currencies \<noteq> []"
  shows "\<exists>res. list_all2 priced_exchange india_exchanges res
       \<and> build_country_financial_profile E (cps ''India'') =
           ([Getenv (cps ''CURRENCY_API_KEY''), HttpGet (currencyapi_request k (cps ''INR'')),
             TickerHistory (cps ''^NSEI''), TickerHistory (cps ''^CNX100''),
             TickerHistory (cps ''^BSESN'')],
            Inr [(cps ''country'', PStr (cps ''India'')),
                 (cps ''currency'', PDict
                    [(cps ''country'', PStr (cps ''India'')),
                     (cps ''currency_name'', PStr (cps ''Indian Rupee'')),
                     (cps ''currency_code'', PStr (cps ''INR'')),
                     (cps ''source'', PStr (cps ''local_mapping''))]),
                 (cps ''exchange_rates'', PDict
                    [(cps ''base_currency'', PStr (cps ''INR'')),
                     (cps ''rates'', PDict (coerced_rates E d target_currencies)),
                     (cps ''provider'', PStr (cps ''currencyapi.com''))]),
                 (cps ''stocks'', PDict
                    [(cps ''country'', PStr (cps ''India'')), (cps ''exchanges'', PList res)]),
                 (cps ''main_exchange_hq_address'', PStr (cps
                    ''Exchange Plaza, Bandra Kurla Complex, Bandra East, Mumbai, Maharashtra 400051, India'')),
                 (cps ''google_maps_link'', PStr (cps
                    ''https://www.google.com/maps/search/?api=1&query=Exchange+Plaza%2C+Bandra+Kurla+Complex%2C+Bandra+East%2C+Mumbai%2C+Maharashtra+400051%2C+India''))])"
proof -
  have cur: "get_currency_for_country E (strip (cps ''India'')) =
     ([], Inr [(cps ''country'', PStr (cps ''India'')), (cps ''currency_name'', PStr (cps ''Indian Rupee'')),
               (cps ''currency_code'', PStr (cps ''INR'')), (cps ''source'', PStr (cps ''local_mapping''))])"
    by (simp add: strip_literals currency_India)
  have fx: "get_exchange_rates_for_currency E (cps ''INR'') =
             ([Getenv (cps ''CURRENCY_API_KEY''), HttpGet (currencyapi_request k (cps ''INR''))],
              Inr [(cps ''base_currency'', PStr (cps ''INR'')),
                   (cps ''rates'', PDict (coerced_rates E d target_currencies)),
                   (cps ''provider'', PStr (cps ''currencyapi.com''))])"
    using rates_readable_result[where E=E and code="cps ''INR''" and k=k and resp=resp
            and payload=payload and d=d, unfolded base_INR] assms
    by simp
  have step: "exchange_rates_step E
        [(cps ''country'', PStr (cps ''India'')), (cps ''currency_name'', PStr (cps ''Indian Rupee'')),
         (cps ''currency_code'', PStr (cps ''INR'')), (cps ''source'', PStr (cps ''local_mapping''))] =
             ([Getenv (cps ''CURRENCY_API_KEY''), HttpGet (currencyapi_request k (cps ''INR''))],
              Inr [(cps ''base_currency'', PStr (cps ''INR'')),
                   (cps ''rates'', PDict (coerced_rates E d target_currencies)),
                   (cps ''provider'', PStr (cps ''currencyapi.com''))])"
    using fx by (simp add: exchange_rates_step_def)
  obtain t3 res where st: "get_country_stock_profile E (cps ''India'') =
           (t3, Inr [(cps ''country'', PStr (cps ''India'')), (cps ''exchanges'', PList res)])"
      "result_exchanges E india_exchanges = (t3, Inr res)"
      "list_all2 priced_exchange india_exchanges res"
    using stock_profile_configured[of E "cps ''India''"]
    by (auto simp: configured_India india_nonempty strip_literals)
  have t3: "t3 = [TickerHistory (cps ''^NSEI''), TickerHistory (cps ''^CNX100''),
             TickerHistory (cps ''^BSESN'')]"
    using result_exchanges_trace_exact[of E india_exchanges] st(2) by (simp add: india_trace)
  obtain r rs where res: "res = r # rs" "priced_exchange (hd india_exchanges) r"
    using st(3) india_head(1) by (metis list_all2_Cons1)
  have link: "main_exchange_link [(cps ''country'', PStr (cps ''India'')), (cps ''exchanges'', PList (r # rs))]
     = Inr (PStr (cps ''Exchange Plaza, Bandra Kurla Complex, Bandra East, Mumbai, Maharashtra 400051, India''),
            PStr (cps ''https://www.google.com/maps/search/?api=1&query=Exchange+Plaza%2C+Bandra+Kurla+Complex%2C+Bandra+East%2C+Mumbai%2C+Maharashtra+400051%2C+India''))"
    using link_configured[OF res(2), of _ "PStr (cps ''India'')" rs] nse_link
    by (simp add: india_head(2))
  have st': "get_country_stock_profile E (strip (cps ''India'')) =
           (t3, Inr [(cps ''country'', PStr (cps ''India'')), (cps ''exchanges'', PList (r # rs))])"
    using st(1) res(1) by (simp add: strip_literals)
  show ?thesis
    using build_result[OF cur step st' link] st(3) res(1) t3 by (simp add: strip_literals)
qed

lemma healthy_coerced:
  assumes "healthy_rates_data E d"
  shows "has_key (coerced_rates E d target_currencies) (cps ''USD'')
       \<or> has_key (coerced_rates E d target_currencies) (cps ''GBP'')
       \<or> has_key (coerced_rates E d target_currencies) (cps ''EUR'')"
proof -
  have mem: "cps ''USD'' \<in> set target_currencies" "cps ''GBP'' \<in> set target_currencies"
      "cps ''EUR'' \<in> set target_currencies"
    by (simp_all add: target_currencies_def)
  show ?thesis
    using assms coerced_has_float_value[of d _ target_currencies E] mem
    unfolding healthy_rates_data_def by blast
qed

lemma requested_currencies:
  "map_of (params (currencyapi_request k b)) (cps ''base_currency'') = Some b"
  "map_of (params (currencyapi_request k b)) (cps ''currencies'') = Some (cps ''USD,INR,GBP,EUR'')"
  by (simp_all add: currencyapi_request_def target_currencies_def cps_append)

text \<open>
  Claim C9, amended. Let the key be configured and let the rates provider answer the
  request for base INR with status 200 and healthy data. Then
  \<open>build_country_financial_profile\<close> on "India" makes no country lookup, reads the key,
  sends one rates request, whose base currency is INR and whose requested currencies are
  "USD,INR,GBP,EUR" (INR is among them), and fetches the prices of \<open>^NSEI\<close>,
  \<open>^CNX100\<close> and \<open>^BSESN\<close>. The result has the currency code INR from the local
  table, a \<open>rates\<close> map with at least one of USD, GBP, EUR, the two exchanges NSE and
  BSE in this order, each priced, the headquarters address of NSE, and the map link
  built from that address.
\<close>

theorem C9_india_profile:
  assumes "getenv E (cps ''CURRENCY_API_KEY'') = Some k" and "k \<noteq> []"
      and "requests_get E (currencyapi_request k (cps ''INR'')) = Inr resp"
      and "status_code resp = 200"
      and "resp_json resp = Inr payload"
      and "py_get payload (cps ''data'') (PDict []) = Inr (PDict d)"
      and "healthy_rates_data E d"
  shows "\<exists>p rates nse bse.
        build_country_financial_profile E (cps ''India'') =
           ([Getenv (cps ''CURRENCY_API_KEY''), HttpGet (currencyapi_request k (cps ''INR'')),
             TickerHistory (cps ''^NSEI''), TickerHistory (cps ''^CNX100''),
             TickerHistory (cps ''^BSESN'')], Inr p)
      \<and> map_of (params (currencyapi_request k (cps ''INR''))) (cps ''base_currency'')
           = Some (cps ''INR'')
      \<and> map_of (params (currencyapi_request k (cps ''INR''))) (cps ''currencies'')
           = Some (cps ''USD,INR,GBP,EUR'')
      \<and> map_of p (cps ''currency'') = Some (PDict
           [(cps ''country'', PStr (cps ''India'')),
            (cps ''currency_name'', PStr (cps ''Indian Rupee'')),
            (cps ''currency_code'', PStr (cps ''INR'')),
            (cps ''source'', PStr (cps ''local_mapping''))])
      \<and> map_of p (cps ''exchange_rates'') = Some (PDict
           [(cps ''base_currency'', PStr (cps ''INR'')),
            (cps ''rates'', PDict rates),
            (cps ''provider'', PStr (cps ''currencyapi.com''))])
      \<and> (has_key rates (cps ''USD'') \<or> has_key rates (cps ''GBP'') \<or> has_key rates (cps ''EUR''))
      \<and> map_of p (cps ''stocks'') = Some (PDict
           [(cps ''country'', PStr (cps ''India'')), (cps ''exchanges'', PList [nse, bse])])
      \<and> list_all2 priced_exchange india_exchanges [nse, bse]
      \<and> map StockExchange.name india_exchanges =
           [cps ''National Stock Exchange of India (NSE)'', cps ''Bombay Stock Exchange (BSE)'']
      \<and> map_of p (cps ''main_exchange_hq_address'') = Some (PStr (cps
           ''Exchange Plaza, Bandra Kurla Complex, Bandra East, Mumbai, Maharashtra 400051, India''))
      \<and> map_of p (cps ''google_maps_link'') = Some (PStr (cps
           ''https://www.google.com/maps/search/?api=1&query=Exchange+Plaza%2C+Bandra+Kurla+Complex%2C+Bandra+East%2C+Mumbai%2C+Maharashtra+400051%2C+India''))"
proof -
  have readable: "entries_readable E d"
    using assms(7) by (simp add: healthy_rates_data_def)
  have some: "has_key (coerced_rates E d target_currencies) (cps ''USD'')
       \<or> has_key (coerced_rates E d target_currencies) (cps ''GBP'')
       \<or> has_key (coerced_rates E d target_currencies) (cps ''EUR'')"
    using healthy_coerced[OF assms(7)] .
  then have ne: "coerced_rates E d target_currencies \<noteq> []" by auto
  obtain res where res: "list_all2 priced_exchange india_exchanges res"
     and b: "build_country_financial_profile E (cps ''India'') =
           ([Getenv (cps ''CURRENCY_API_KEY''), HttpGet (currencyapi_request k (cps ''INR'')),
             TickerHistory (cps ''^NSEI''), TickerHistory (cps ''^CNX100''),
             TickerHistory (cps ''^BSESN'')],
            Inr [(cps ''country'', PStr (cps ''India'')),
                 (cps ''currency'', PDict
                    [(cps ''country'', PStr (cps ''India'')),
                     (cps ''currency_name'', PStr (cps ''Indian Rupee'')),
                     (cps ''currency_code'', PStr (cps ''INR'')),
                     (cps ''source'', PStr (cps ''local_mapping''))]),
                 (cps ''exchange_rates'', PDict
                    [(cps ''base_currency'', PStr (cps ''INR'')),
                     (cps ''rates'', PDict (coerced_rates E d target_currencies)),
                     (cps ''provider'', PStr (cps ''currencyapi.com''))]),
                 (cps ''stocks'', PDict
                    [(cps ''country'', PStr (cps ''India'')), (cps ''exchanges'', PList res)]),
                 (cps ''main_exchange_hq_address'', PStr (cps
                    ''Exchange Plaza, Bandra Kurla Complex, Bandra East, Mumbai, Maharashtra 400051, India'')),
                 (cps ''google_maps_link'', PStr (cps
                    ''https://www.google.com/maps/search/?api=1&query=Exchange+Plaza%2C+Bandra+Kurla+Complex%2C+Bandra+East%2C+Mumbai%2C+Maharashtra+400051%2C+India''))])"
    using build_India[OF assms(1-6) readable ne] by blast
  have "length res = 2"
    using list_all2_lengthD[OF res] by (simp add: india_exchanges_def)
  then obtain nse bse where nb: "res = [nse, bse]"
    by (cases res; cases "tl res") auto
  show ?thesis
    using b res some unfolding nb
    by (simp add: requested_currencies india_head(3))
qed

lemma healthy_readable: "entries_readable E healthy_entries"
  by (simp add: entries_readable_def target_currencies_def healthy_entries_def entry_readable_def)

lemma healthy_is_healthy: "healthy_rates_data E healthy_entries"
  by (simp add: healthy_rates_data_def healthy_readable)
     (simp add: has_float_value_def healthy_entries_def)

lemma healthy_coerced_rates:
  "coerced_rates E healthy_entries target_currencies =
     [(cps ''USD'', PFloat (Fin (3 / 250))), (cps ''INR'', PFloat (Fin 1)),
      (cps ''GBP'', PFloat (Fin (9 / 1000))), (cps ''EUR'', PFloat (Fin (11 / 1000)))]"
  by (simp add: coerced_rates_def target_currencies_def healthy_entries_def sbind_def)

lemma rates_request_literal:
  "currencyapi_request (cps ''demo-key'') (cps ''INR'') =
     \<lparr>url = cps ''https://api.currencyapi.com/v3/latest'',
      params = [(cps ''apikey'', cps ''demo-key''), (cps ''base_currency'', cps ''INR''),
                (cps ''currencies'', cps ''USD,INR,GBP,EUR'')]\<rparr>"
  by (simp add: currencyapi_request_def target_currencies_def cps_append)

text \<open>
  Claim C9 as stated says that INR is never requested against itself. With the key
  configured and a provider that answers with all four rates, the one request that
  \<open>build_country_financial_profile\<close> sends for "India" has the base currency INR and
  asks for "USD,INR,GBP,EUR", which holds INR.
\<close>

theorem C9_inr_is_requested_counterexample:
  "HttpGet \<lparr>url = cps ''https://api.currencyapi.com/v3/latest'',
            params = [(cps ''apikey'', cps ''demo-key''), (cps ''base_currency'', cps ''INR''),
                      (cps ''currencies'', cps ''USD,INR,GBP,EUR'')]\<rparr>
     \<in> set (fst (build_country_financial_profile (demo_env (PDict healthy_entries)) (cps ''India'')))
   \<and> contains (cps ''USD,INR,GBP,EUR'') (cps ''INR'')"
proof -
  have ne: "coerced_rates (demo_env (PDict healthy_entries)) healthy_entries target_currencies \<noteq> []"
    by (simp add: healthy_coerced_rates)
  have "fst (build_country_financial_profile (demo_env (PDict healthy_entries)) (cps ''India'')) =
           [Getenv (cps ''CURRENCY_API_KEY''), HttpGet (currencyapi_request (cps ''demo-key'') (cps ''INR'')),
             TickerHistory (cps ''^NSEI''), TickerHistory (cps ''^CNX100''),
             TickerHistory (cps ''^BSESN'')]"
    using build_India[where E="demo_env (PDict healthy_entries)" and k="cps ''demo-key''"
            and resp="rates_response (PDict healthy_entries)"
            and payload="PDict [(cps ''data'', PDict healthy_entries)]" and d=healthy_entries,
            OF demo_getenv _ demo_rates_get _ _ _ healthy_readable ne]
    by (auto simp: rates_response_def)
  moreover have "contains (cps ''USD,INR,GBP,EUR'') (cps ''INR'')"
    by (simp add: cps_def)
  ultimately show ?thesis
    by (simp add: rates_request_literal)
qed

text \<open>The example world with the full rates answer is healthy, and C9 holds there.\<close>

theorem C9_witness:
  "getenv (demo_env (PDict healthy_entries)) (cps ''CURRENCY_API_KEY'') = Some (cps ''demo-key'')
   \<and> requests_get (demo_env (PDict healthy_entries)) (currencyapi_request (cps ''demo-key'') (cps ''INR''))
       = Inr (rates_response (PDict healthy_entries))
   \<and> healthy_rates_data (demo_env (PDict healthy_entries)) healthy_entries
   \<and> (\<exists>p rates nse bse.
        build_country_financial_profile (demo_env (PDict healthy_entries)) (cps ''India'') =
           ([Getenv (cps ''CURRENCY_API_KEY''),
             HttpGet (currencyapi_request (cps ''demo-key'') (cps ''INR'')),
             TickerHistory (cps ''^NSEI''), TickerHistory (cps ''^CNX100''),
             TickerHistory (cps ''^BSESN'')], Inr p)
      \<and> map_of p (cps ''exchange_rates'') = Some (PDict
           [(cps ''base_currency'', PStr (cps ''INR'')),
            (cps ''rates'', PDict rates),
            (cps ''provider'', PStr (cps ''currencyapi.com''))])
      \<and> (has_key rates (cps ''USD'') \<or> has_key rates (cps ''GBP'') \<or> has_key rates (cps ''EUR''))
      \<and> map_of p (cps ''stocks'') = Some (PDict
           [(cps ''country'', PStr (cps ''India'')), (cps ''exchanges'', PList [nse, bse])])
      \<and> list_all2 priced_exchange india_exchanges [nse, bse]
      \<and> map_of p (cps ''google_maps_link'') = Some (PStr (cps
           ''https://www.google.com/maps/search/?api=1&query=Exchange+Plaza%2C+Bandra+Kurla+Complex%2C+Bandra+East%2C+Mumbai%2C+Maharashtra+400051%2C+India'')))"
proof -
  have h: "cps ''demo-key'' \<noteq> []" "status_code (rates_response (PDict healthy_entries)) = 200"
     "resp_json (rates_response (PDict healthy_entries)) = Inr (PDict [(cps ''data'', PDict healthy_entries)])"
     "py_get (PDict [(cps ''data'', PDict healthy_entries)]) (cps ''data'') (PDict []) = Inr (PDict healthy_entries)"
    by (simp_all add: rates_response_def)
  from C9_india_profile[OF demo_getenv h(1) demo_rates_get h(2,3,4) healthy_is_healthy]
  obtain p rates nse bse where
     "build_country_financial_profile (demo_env (PDict healthy_entries)) (cps ''India'') =
           ([Getenv (cps ''CURRENCY_API_KEY''),
             HttpGet (currencyapi_request (cps ''demo-key'') (cps ''INR'')),
             TickerHistory (cps ''^NSEI''), TickerHistory (cps ''^CNX100''),
             TickerHistory (cps ''^BSESN'')], Inr p)"
     "map_of p (cps ''exchange_rates'') = Some (PDict
           [(cps ''base_currency'', PStr (cps ''INR'')),
            (cps ''rates'', PDict rates),
            (cps ''provider'', PStr (cps ''currencyapi.com''))])"
     "has_key rates (cps ''USD'') \<or> has_key rates (cps ''GBP'') \<or> has_key rates (cps ''EUR'')"
     "map_of p (cps ''stocks'') = Some (PDict
           [(cps ''country'', PStr (cps ''India'')), (cps ''exchanges'', PList [nse, bse])])"
     "list_all2 priced_exchange india_exchanges [nse, bse]"
     "map_of p (cps ''google_maps_link'') = Some (PStr (cps
           ''https://www.google.com/maps/search/?api=1&query=Exchange+Plaza%2C+Bandra+Kurla+Complex%2C+Bandra+East%2C+Mumbai%2C+Maharashtra+400051%2C+India''))"
    by blast
  then show ?thesis
    using demo_getenv[of "PDict healthy_entries"]
      demo_rates_get[of "PDict healthy_entries" "cps ''demo-key''" "cps ''INR''"]
      healthy_is_healthy[of "demo_env (PDict healthy_entries)"]
    by blast
qed

end
